theory Spec2Isabelle
  imports Main
begin

section \<open>Text\<close>

text \<open>
  A Python \<open>str\<close> is a sequence of Unicode code points. A character is modelled by its
  code point (a natural number) and a string by the list of its code points, so that
  \<open>length\<close> counts what Python's \<open>len\<close> counts and the Arabic letters of the source are
  single characters.
\<close>

type_synonym pychar = nat
type_synonym pystr = "pychar list"

text \<open>
  \<open>str.isspace\<close> of one character: the code points for which CPython's
  \<open>_PyUnicode_IsWhitespace\<close> answers true.
\<close>

definition whitespace_chars :: "pychar list" where
  "whitespace_chars =
     [9, 10, 11, 12, 13, 28, 29, 30, 31, 32, 133, 160, 5760,
      8192, 8193, 8194, 8195, 8196, 8197, 8198, 8199, 8200, 8201, 8202,
      8232, 8233, 8239, 8287, 12288]"

definition isspace :: "pychar \<Rightarrow> bool" where
  "isspace c = (c \<in> set whitespace_chars)"

text \<open>\<open>str.strip()\<close> without argument: drops the leading and the trailing whitespace.\<close>

definition lstrip :: "pystr \<Rightarrow> pystr" where
  "lstrip s = dropWhile isspace s"

definition rstrip :: "pystr \<Rightarrow> pystr" where
  "rstrip s = rev (dropWhile isspace (rev s))"

definition strip :: "pystr \<Rightarrow> pystr" where
  "strip s = rstrip (lstrip s)"

text \<open>
  \<open>str.replace(old, new)\<close> where \<open>old\<close> is one character: \<open>new\<close> is one character in the
  replacement table and the empty string for the tatweel.
\<close>

definition replace_char :: "pychar \<Rightarrow> pychar \<Rightarrow> pystr \<Rightarrow> pystr" where
  "replace_char src target s = map (\<lambda>c. if c = src then target else c) s"

definition remove_char :: "pychar \<Rightarrow> pystr \<Rightarrow> pystr" where
  "remove_char src s = filter (\<lambda>c. c \<noteq> src) s"

subsection \<open>normalize_arabic\<close>

text \<open>The letters of the source, by code point.\<close>

definition TATWEEL :: pychar where "TATWEEL = 1600"
definition ALEF_HAMZA_ABOVE :: pychar where "ALEF_HAMZA_ABOVE = 1571"
definition ALEF_HAMZA_BELOW :: pychar where "ALEF_HAMZA_BELOW = 1573"
definition ALEF_MADDA :: pychar where "ALEF_MADDA = 1570"
definition TA_MARBUTA :: pychar where "TA_MARBUTA = 1577"
definition ALEF_MAKSURA :: pychar where "ALEF_MAKSURA = 1609"
definition ALEF :: pychar where "ALEF = 1575"
definition HA :: pychar where "HA = 1607"
definition YA :: pychar where "YA = 1610"

text \<open>The dictionary \<open>replacements\<close>, in its insertion order (the order the loop visits).\<close>

definition replacements :: "(pychar \<times> pychar) list" where
  "replacements =
     [(ALEF_HAMZA_ABOVE, ALEF), (ALEF_HAMZA_BELOW, ALEF), (ALEF_MADDA, ALEF),
      (TA_MARBUTA, HA), (ALEF_MAKSURA, YA)]"

definition normalize_arabic :: "pystr \<Rightarrow> pystr" where
  "normalize_arabic text =
     (if text = [] then text
      else strip (fold (\<lambda>(src, target) t. replace_char src target t) replacements
                    (remove_char TATWEEL text)))"

text \<open>The letter variants that the replacement table rewrites.\<close>

definition letter_variants :: "pychar set" where
  "letter_variants =
     {ALEF_HAMZA_ABOVE, ALEF_HAMZA_BELOW, ALEF_MADDA, TA_MARBUTA, ALEF_MAKSURA}"

text \<open>A string has no outer whitespace when stripping either end changes nothing.\<close>

definition no_outer_space :: "pystr \<Rightarrow> bool" where
  "no_outer_space s = (lstrip s = s \<and> rstrip s = s)"

subsection \<open>Digits\<close>

text \<open>
  The first code point of each run of ten decimal digits (Unicode category \<open>Nd\<close>, Unicode
  14): these are the characters that \<open>\d\<close> of a \<open>str\<close> pattern matches and that \<open>int\<close>
  converts; the digit's value is its offset in the run.
\<close>

definition decimal_zeros :: "pychar list" where
  "decimal_zeros =
     [48, 1632, 1776, 1984, 2406, 2534, 2662, 2790, 2918, 3046, 3174, 3302, 3430,
      3558, 3664, 3792, 3872, 4160, 4240, 6112, 6160, 6470, 6608, 6784, 6800, 6992,
      7088, 7232, 7248, 42528, 43216, 43264, 43472, 43504, 43600, 44016, 65296,
      66720, 68912, 69734, 69872, 69942, 70096, 70384, 70736, 70864, 71248, 71360,
      71472, 71904, 72016, 72784, 73040, 73120, 92768, 92864, 93008, 120782, 120792,
      120802, 120812, 120822, 123200, 123632, 125264, 130032]"

definition isdecimal :: "pychar \<Rightarrow> bool" where
  "isdecimal c = list_ex (\<lambda>z. z \<le> c \<and> c < z + 10) decimal_zeros"

definition digit_value :: "pychar \<Rightarrow> nat" where
  "digit_value c =
     (case find (\<lambda>z. z \<le> c \<and> c < z + 10) decimal_zeros of
        Some z \<Rightarrow> c - z
      | None \<Rightarrow> 0)"

text \<open>
  The characters of numeric type \<open>Digit\<close> that are not decimal (superscripts, circled
  digits and the like), as ranges with both ends included.
\<close>

definition other_digit_ranges :: "(pychar \<times> pychar) list" where
  "other_digit_ranges =
     [(178, 179), (185, 185), (4969, 4977), (6618, 6618), (8304, 8304), (8308,
      8313), (8320, 8329), (9312, 9320), (9332, 9340), (9352, 9360), (9450, 9450),
      (9461, 9469), (9471, 9471), (10102, 10110), (10112, 10120), (10122, 10130),
      (68160, 68163), (69216, 69224), (69714, 69722), (127232, 127242)]"

text \<open>\<open>str.isdigit\<close>: every character is a digit and there is at least one.\<close>

definition isdigit_char :: "pychar \<Rightarrow> bool" where
  "isdigit_char c =
     (isdecimal c \<or> list_ex (\<lambda>(lo, hi). lo \<le> c \<and> c \<le> hi) other_digit_ranges)"

definition isdigit :: "pystr \<Rightarrow> bool" where
  "isdigit s = (s \<noteq> [] \<and> list_all isdigit_char s)"

section \<open>Dates\<close>

text \<open>A \<open>datetime.date\<close>: year, month, day. Dates compare as these triples do.\<close>

datatype pydate = Date nat nat nat

fun date_gt :: "pydate \<Rightarrow> pydate \<Rightarrow> bool" where
  "date_gt (Date y1 m1 d1) (Date y2 m2 d2) =
     (y1 > y2 \<or> (y1 = y2 \<and> (m1 > m2 \<or> (m1 = m2 \<and> d1 > d2))))"

definition isleap :: "nat \<Rightarrow> bool" where
  "isleap y = (y mod 4 = 0 \<and> (y mod 100 \<noteq> 0 \<or> y mod 400 = 0))"

definition days_in_month :: "nat \<Rightarrow> nat \<Rightarrow> nat" where
  "days_in_month y m =
     (if m = 2 then (if isleap y then 29 else 28)
      else if m = 4 \<or> m = 6 \<or> m = 9 \<or> m = 11 then 30 else 31)"

text \<open>
  The constructor \<open>datetime.date(year, month, day)\<close>; \<open>None\<close> is its \<open>ValueError\<close>.
\<close>

definition make_date :: "nat \<Rightarrow> nat \<Rightarrow> nat \<Rightarrow> pydate option" where
  "make_date y m d =
     (if 1 \<le> y \<and> y \<le> 9999 \<and> 1 \<le> m \<and> m \<le> 12 \<and> 1 \<le> d \<and> d \<le> days_in_month y m
      then Some (Date y m d) else None)"

text \<open>
  \<open>datetime.strptime(s, "%Y-%m-%d")\<close>. The format compiles to the pattern
  \<^verbatim>\<open>(?P<Y>\d\d\d\d)-(?P<m>1[0-2]|0[1-9]|[1-9])-(?P<d>3[0-1]|[1-2]\d|0[1-9]|[1-9]| [1-9])\<close>,
  matched at the start of the string; data left after the match is an error. Each
  function below matches one group at the head of its argument, taking the
  alternatives in the pattern's order, and returns the group's number and the rest.
  (Where an earlier alternative of the month matches, no later one can be followed by
  the hyphen, so taking the first alternative that matches loses no match.)
\<close>

definition ascii_digit :: "pychar \<Rightarrow> nat \<Rightarrow> nat \<Rightarrow> bool" where
  "ascii_digit c lo hi = (48 + lo \<le> c \<and> c \<le> 48 + hi)"

fun match_Y :: "pystr \<Rightarrow> (nat \<times> pystr) option" where
  "match_Y (a # b # c # d # rest) =
     (if isdecimal a \<and> isdecimal b \<and> isdecimal c \<and> isdecimal d
      then Some (1000 * digit_value a + 100 * digit_value b + 10 * digit_value c
                 + digit_value d, rest)
      else None)"
| "match_Y _ = None"

fun match_m :: "pystr \<Rightarrow> (nat \<times> pystr) option" where
  "match_m [] = None"
| "match_m [a] = (if ascii_digit a 1 9 then Some (a - 48, []) else None)"
| "match_m (a # b # rest) =
     (if a = 49 \<and> ascii_digit b 0 2 then Some (10 + (b - 48), rest)
      else if a = 48 \<and> ascii_digit b 1 9 then Some (b - 48, rest)
      else if ascii_digit a 1 9 then Some (a - 48, b # rest)
      else None)"

fun match_d :: "pystr \<Rightarrow> (nat \<times> pystr) option" where
  "match_d [] = None"
| "match_d [a] = (if ascii_digit a 1 9 then Some (a - 48, []) else None)"
| "match_d (a # b # rest) =
     (if a = 51 \<and> ascii_digit b 0 1 then Some (30 + (b - 48), rest)
      else if ascii_digit a 1 2 \<and> isdecimal b
        then Some (10 * (a - 48) + digit_value b, rest)
      else if a = 48 \<and> ascii_digit b 1 9 then Some (b - 48, rest)
      else if ascii_digit a 1 9 then Some (a - 48, b # rest)
      else if a = 32 \<and> ascii_digit b 1 9 then Some (b - 48, rest)
      else None)"

definition HYPHEN :: pychar where "HYPHEN = 45"

definition strptime_ymd :: "pystr \<Rightarrow> pydate option" where
  "strptime_ymd s =
     (case match_Y s of
        None \<Rightarrow> None
      | Some (y, r1) \<Rightarrow>
          (case r1 of
             [] \<Rightarrow> None
           | h1 # r2 \<Rightarrow>
               if h1 \<noteq> HYPHEN then None
               else (case match_m r2 of
                       None \<Rightarrow> None
                     | Some (m, r3) \<Rightarrow>
                         (case r3 of
                            [] \<Rightarrow> None
                          | h2 # r4 \<Rightarrow>
                              if h2 \<noteq> HYPHEN then None
                              else (case match_d r4 of
                                      None \<Rightarrow> None
                                    | Some (d, r5) \<Rightarrow>
                                        if r5 \<noteq> [] then None else make_date y m d)))))"

section \<open>Data model\<close>

text \<open>The column names of \<open>EMPLOYEE_FIELDS\<close>, in the order of the list.\<close>

datatype field =
    Name | Grade | Grade_date | Hire_date | File_no | Qualification
  | Functional_group | Type_group | Job_title | Department | Current_work
  | Birth_date | Insurance_no | National_id | Address | Phone | Notes

definition EMPLOYEE_FIELDS :: "field list" where
  "EMPLOYEE_FIELDS =
     [Name, Grade, Grade_date, Hire_date, File_no, Qualification,
      Functional_group, Type_group, Job_title, Department, Current_work,
      Birth_date, Insurance_no, National_id, Address, Phone, Notes]"

text \<open>
  \<open>AR_LABELS\<close> on the employee fields (its two other keys label widgets only).
\<close>

fun AR_LABELS :: "field \<Rightarrow> pystr" where
  "AR_LABELS Name = [1575, 1604, 1575, 1587, 1605]"
| "AR_LABELS Grade = [1575, 1604, 1583, 1585, 1580, 1577]"
| "AR_LABELS Grade_date =
     [1578, 1575, 1585, 1610, 1582, 32, 1575, 1604, 1581, 1589, 1608, 1604, 32,
      1593, 1604, 1610, 1607, 1575]"
| "AR_LABELS Hire_date =
     [1578, 1575, 1585, 1610, 1582, 32, 1575, 1604, 1578, 1593, 1610, 1610, 1606]"
| "AR_LABELS File_no = [1585, 1602, 1605, 32, 1575, 1604, 1605, 1604, 1601]"
| "AR_LABELS Qualification = [1575, 1604, 1605, 1572, 1607, 1604]"
| "AR_LABELS Functional_group =
     [1605, 1580, 1605, 1608, 1593, 1577, 32, 1608, 1592, 1610, 1601, 1610, 1577]"
| "AR_LABELS Type_group =
     [1605, 1580, 1605, 1608, 1593, 1577, 32, 1606, 1608, 1593, 1610, 1577]"
| "AR_LABELS Job_title =
     [1575, 1604, 1605, 1587, 1605, 1609, 32, 1575, 1604, 1608, 1592, 1610, 1601, 1610]"
| "AR_LABELS Department = [1575, 1604, 1602, 1587, 1605]"
| "AR_LABELS Current_work =
     [1575, 1604, 1593, 1605, 1604, 32, 1575, 1604, 1602, 1575, 1574, 1605, 32, 1576, 1607]"
| "AR_LABELS Birth_date =
     [1578, 1575, 1585, 1610, 1582, 32, 1575, 1604, 1605, 1610, 1604, 1575, 1583]"
| "AR_LABELS Insurance_no = [1585, 1602, 1605, 32, 1578, 1571, 1605, 1610, 1606, 1610]"
| "AR_LABELS National_id = [1585, 1602, 1605, 32, 1602, 1608, 1605, 1610]"
| "AR_LABELS Address = [1593, 1606, 1608, 1575, 1606, 32, 1581, 1575, 1604, 1610]"
| "AR_LABELS Phone = [1585, 1602, 1605, 32, 1575, 1604, 1578, 1604, 1610, 1601, 1608, 1606]"
| "AR_LABELS Notes = [1605, 1604, 1575, 1581, 1592, 1575, 1578]"

text \<open>
  A row of table \<open>employee\<close>: the key and the seventeen text columns. Every \<open>INSERT\<close> and
  \<open>UPDATE\<close> of the program writes all seventeen columns with a string, so a column is
  modelled as text (never \<open>NULL\<close>).
\<close>

record employee_row =
  emp_id :: nat
  cols :: "field \<Rightarrow> pystr"

text \<open>
  A row of table \<open>attachment\<close>. \<open>filetype\<close> and \<open>upload_date\<close> are \<open>NULL\<close> (\<open>None\<close>) when an
  \<open>INSERT\<close> leaves them out.
\<close>

record attachment_row =
  att_id :: nat
  employee_id :: nat
  filename :: pystr
  filepath :: pystr
  filetype :: "pystr option"
  upload_date :: "pystr option"
  is_photo :: nat

text \<open>
  The database behind the connection: the two tables in storage order, and for each the
  largest key ever given out (\<open>AUTOINCREMENT\<close> keeps it in \<open>sqlite_sequence\<close>).
\<close>

record connection =
  employee :: "employee_row list"
  attachment :: "attachment_row list"
  employee_seq :: nat
  attachment_seq :: nat

text \<open>
  The key of a new row under \<open>AUTOINCREMENT\<close>: one more than the largest key the table
  holds or has ever held.
\<close>

definition next_rowid :: "nat \<Rightarrow> nat list \<Rightarrow> nat" where
  "next_rowid seq ids = Suc (fold max ids seq)"

text \<open>
  \<open>INSERT INTO employee (EMPLOYEE_FIELDS) VALUES (vals)\<close>: each named column takes the
  value at its position.
\<close>

definition row_cols :: "pystr list \<Rightarrow> field \<Rightarrow> pystr" where
  "row_cols vals f = (case map_of (zip EMPLOYEE_FIELDS vals) f of Some v \<Rightarrow> v | None \<Rightarrow> [])"

definition insert_employee :: "pystr list \<Rightarrow> connection \<Rightarrow> nat \<times> connection" where
  "insert_employee vals c =
     (let rowid = next_rowid (employee_seq c) (map emp_id (employee c))
      in (rowid, c\<lparr>employee := employee c @ [\<lparr>emp_id = rowid, cols = row_cols vals\<rparr>],
                   employee_seq := rowid\<rparr>))"

text \<open>\<open>UPDATE employee SET f = ?, ... WHERE id = ?\<close>\<close>

definition update_employee :: "pystr list \<Rightarrow> nat \<Rightarrow> connection \<Rightarrow> connection" where
  "update_employee vals i c =
     c\<lparr>employee := map (\<lambda>r. if emp_id r = i then r\<lparr>cols := row_cols vals\<rparr> else r) (employee c)\<rparr>"

text \<open>\<open>DELETE FROM employee WHERE id = ?\<close> and \<open>DELETE FROM attachment WHERE employee_id = ?\<close>\<close>

definition delete_employee_row :: "nat \<Rightarrow> connection \<Rightarrow> connection" where
  "delete_employee_row i c = c\<lparr>employee := filter (\<lambda>r. emp_id r \<noteq> i) (employee c)\<rparr>"

definition delete_attachments :: "nat \<Rightarrow> connection \<Rightarrow> connection" where
  "delete_attachments i c = c\<lparr>attachment := filter (\<lambda>a. employee_id a \<noteq> i) (attachment c)\<rparr>"

text \<open>
  \<open>INSERT INTO attachment (employee_id, filename, filepath, filetype, upload_date,
  is_photo)\<close>; the four-column form of the statement passes \<open>None\<close> for the two columns
  it leaves out.
\<close>

definition insert_attachment ::
  "nat \<Rightarrow> pystr \<Rightarrow> pystr \<Rightarrow> pystr option \<Rightarrow> pystr option \<Rightarrow> nat \<Rightarrow> connection \<Rightarrow> connection" where
  "insert_attachment emp fname fpath ftype udate photo c =
     (let rowid = next_rowid (attachment_seq c) (map att_id (attachment c))
      in c\<lparr>attachment := attachment c @
              [\<lparr>att_id = rowid, employee_id = emp, filename = fname, filepath = fpath,
                filetype = ftype, upload_date = udate, is_photo = photo\<rparr>],
           attachment_seq := rowid\<rparr>)"

text \<open>
  \<open>SELECT id FROM employee WHERE column = ?\<close>, with \<open>AND id != ?\<close> when \<open>skip_id\<close> is given;
  \<open>fetchone\<close> is the first row of the result, if any.
\<close>

definition select_where :: "field \<Rightarrow> pystr \<Rightarrow> nat option \<Rightarrow> connection \<Rightarrow> nat list" where
  "select_where column v skip_id c =
     map emp_id
       (filter (\<lambda>r. cols r column = v \<and> (case skip_id of None \<Rightarrow> True | Some i \<Rightarrow> emp_id r \<noteq> i))
          (employee c))"

definition fetchone :: "'a list \<Rightarrow> 'a option" where
  "fetchone rows = (case rows of [] \<Rightarrow> None | r # _ \<Rightarrow> Some r)"

section \<open>The employee tab\<close>

text \<open>
  The state of \<open>EmployeeTab\<close>: the connection, the selected employee, the pending
  attachments and photo, the text of the form's line edits, and what the table widget
  and the attachment list show.
\<close>

record employee_tab =
  conn :: connection
  selected_emp_id :: "nat option"
  attachments :: "(pystr \<times> pystr) list"
  photo_path :: "pystr option"
  form_fields :: "field \<Rightarrow> pystr"
  table :: "employee_row list"
  attach_list :: "pystr list"

text \<open>
  The messages of \<open>validate_employee_form\<close>, one constructor per message text (the two
  date messages carry the field whose label they quote).
\<close>

datatype validation_error =
    Name_required
  | File_no_required
  | File_no_taken
  | National_id_required
  | National_id_format
  | National_id_taken
  | Phone_format
  | Date_in_future field
  | Date_format field

text \<open>What a slot shows when it returns: a critical box, an information box, or nothing.\<close>

datatype message =
    Critical_invalid validation_error
  | Critical_no_selection
  | Critical_no_file_no
  | Information_added
  | Information_updated
  | Information_edited
  | Information_deleted
  | Raised
  | Silent

subsection \<open>validate_employee_form\<close>

definition date_fields :: "field list" where
  "date_fields = [Grade_date, Hire_date, Birth_date]"

text \<open>The loop over \<open>date_fields\<close>; \<open>None\<close> when it runs to its end.\<close>

fun check_dates :: "pydate \<Rightarrow> (field \<Rightarrow> pystr) \<Rightarrow> field list \<Rightarrow> validation_error option" where
  "check_dates today form [] = None"
| "check_dates today form (field # rest) =
     (let date_str = strip (form field)
      in if date_str \<noteq> [] then
           (case strptime_ymd date_str of
              None \<Rightarrow> Some (Date_format field)
            | Some date_val \<Rightarrow>
                if date_gt date_val today then Some (Date_in_future field)
                else check_dates today form rest)
         else check_dates today form rest)"

text \<open>
  \<open>validate_employee_form(skip_id)\<close>; \<open>today\<close> is what \<open>datetime.date.today()\<close> returns.
  \<open>None\<close> is the result \<open>(True, "")\<close> and \<open>Some e\<close> the result \<open>(False, message)\<close>.
\<close>

definition validate_employee_form ::
  "pydate \<Rightarrow> employee_tab \<Rightarrow> nat option \<Rightarrow> validation_error option" where
  "validate_employee_form today tab skip_id =
     (let name = strip (form_fields tab Name);
          file_no = strip (form_fields tab File_no);
          national_id = strip (form_fields tab National_id);
          phone = strip (form_fields tab Phone)
      in if name = [] then Some Name_required
         else if file_no = [] then Some File_no_required
         else if fetchone (select_where File_no file_no skip_id (conn tab)) \<noteq> None
           then Some File_no_taken
         else if national_id = [] then Some National_id_required
         else if \<not> (isdigit national_id \<and> length national_id = 14)
           then Some National_id_format
         else if fetchone (select_where National_id national_id skip_id (conn tab)) \<noteq> None
           then Some National_id_taken
         else if phone \<noteq> [] \<and> \<not> isdigit phone then Some Phone_format
         else check_dates today (form_fields tab) date_fields)"

subsection \<open>Adding, editing and deleting\<close>

definition load_employees :: "employee_tab \<Rightarrow> employee_tab" where
  "load_employees tab = tab\<lparr>table := employee (conn tab)\<rparr>"

definition clear_form :: "employee_tab \<Rightarrow> employee_tab" where
  "clear_form tab =
     tab\<lparr>form_fields := (\<lambda>f. []), attach_list := [], attachments := [],
         photo_path := None, selected_emp_id := None\<rparr>"

text \<open>
  The loop that stores the pending attachments under an employee's key; the photo flag
  is 1 for the pending photo's path.
\<close>

definition insert_pending ::
  "nat \<Rightarrow> pystr option \<Rightarrow> (pystr \<times> pystr) list \<Rightarrow> connection \<Rightarrow> connection" where
  "insert_pending emp photo pending c =
     fold (\<lambda>(fname, fpath) c'.
             insert_attachment emp fname fpath None None
               (if Some fpath = photo then 1 else 0) c')
          pending c"

definition add_employee :: "pydate \<Rightarrow> employee_tab \<Rightarrow> message \<times> employee_tab" where
  "add_employee today tab =
     (let vals = map (\<lambda>f. normalize_arabic (form_fields tab f)) EMPLOYEE_FIELDS
      in case validate_employee_form today tab (selected_emp_id tab) of
           Some msg \<Rightarrow> (Critical_invalid msg, tab)
         | None \<Rightarrow>
             (case selected_emp_id tab of
                Some i \<Rightarrow>
                  (let c1 = update_employee vals i (conn tab);
                       c2 = delete_attachments i c1;
                       c3 = insert_pending i (photo_path tab) (attachments tab) c2
                   in (Information_updated, clear_form (load_employees (tab\<lparr>conn := c3\<rparr>))))
              | None \<Rightarrow>
                  (let (i, c1) = insert_employee vals (conn tab);
                       c2 = insert_pending i (photo_path tab) (attachments tab) c1
                   in (Information_added, clear_form (load_employees (tab\<lparr>conn := c2\<rparr>))))))"

definition edit_employee :: "pydate \<Rightarrow> employee_tab \<Rightarrow> message \<times> employee_tab" where
  "edit_employee today tab =
     (case selected_emp_id tab of
        None \<Rightarrow> (Critical_no_selection, tab)
      | Some i \<Rightarrow>
          (case validate_employee_form today tab (Some i) of
             Some msg \<Rightarrow> (Critical_invalid msg, tab)
           | None \<Rightarrow>
               (let vals = map (\<lambda>f. normalize_arabic (form_fields tab f)) EMPLOYEE_FIELDS;
                    c1 = update_employee vals i (conn tab);
                    c2 = delete_attachments i c1;
                    c3 = insert_pending i (photo_path tab) (attachments tab) c2
                in (Information_edited, clear_form (load_employees (tab\<lparr>conn := c3\<rparr>))))))"

text \<open>\<open>delete_employee\<close>; \<open>reply_yes\<close> is the answer to the confirmation question.\<close>

definition delete_employee :: "bool \<Rightarrow> employee_tab \<Rightarrow> message \<times> employee_tab" where
  "delete_employee reply_yes tab =
     (case selected_emp_id tab of
        None \<Rightarrow> (Critical_no_selection, tab)
      | Some i \<Rightarrow>
          if reply_yes then
            (let c1 = delete_employee_row i (conn tab);
                 c2 = delete_attachments i c1
             in (Information_deleted, clear_form (load_employees (tab\<lparr>conn := c2\<rparr>))))
          else (Silent, tab))"

text \<open>
  \<open>load_attachments\<close>: the selected employee's attachment rows fill the list widget and
  the pending list; the photo is the path of the last row flagged as photo.
\<close>

definition load_attachments :: "nat \<Rightarrow> employee_tab \<Rightarrow> employee_tab" where
  "load_attachments i tab =
     (let rows = filter (\<lambda>a. employee_id a = i) (attachment (conn tab))
      in tab\<lparr>attach_list := map filename rows,
              attachments := map (\<lambda>a. (filename a, filepath a)) rows,
              photo_path := fold (\<lambda>a p. if is_photo a \<noteq> 0 then Some (filepath a) else p)
                              rows None\<rparr>)"

text \<open>
  \<open>on_row_select\<close>: the key in the vertical header of the clicked row is looked up in
  the employee table, the stored values are put into the line edits, and the key becomes
  the selection. \<open>None\<close> is the exception raised when the header or the row is missing,
  before anything is set.
\<close>

definition on_row_select :: "nat \<Rightarrow> employee_tab \<Rightarrow> employee_tab option" where
  "on_row_select row tab =
     (if length (table tab) \<le> row then None
      else (let i = emp_id (table tab ! row)
            in case fetchone (filter (\<lambda>r. emp_id r = i) (employee (conn tab))) of
                 None \<Rightarrow> None
               | Some row_data \<Rightarrow>
                   Some (load_attachments i
                           (tab\<lparr>form_fields := cols row_data, selected_emp_id := Some i\<rparr>))))"

subsection \<open>search_employees\<close>

text \<open>
  The \<open>LIKE\<close> operator of SQLite, pattern first: \<open>%\<close> (37) matches any run of characters,
  \<open>_\<close> (95) any one character, and any other character matches itself, the letters
  \<open>A\<close> to \<open>Z\<close> and \<open>a\<close> to \<open>z\<close> without regard to case. (The texts are taken to hold no
  NUL character and the pattern to stay within the engine's length limit.)
\<close>

definition PERCENT :: pychar where "PERCENT = 37"
definition UNDERSCORE :: pychar where "UNDERSCORE = 95"

definition ascii_lower :: "pychar \<Rightarrow> pychar" where
  "ascii_lower c = (if 65 \<le> c \<and> c \<le> 90 then c + 32 else c)"

fun like :: "pystr \<Rightarrow> pystr \<Rightarrow> bool" where
  "like [] s = (s = [])"
| "like (p # ps) [] = (p = PERCENT \<and> like ps [])"
| "like (p # ps) (c # cs) =
     (if p = PERCENT then like ps (c # cs) \<or> like (p # ps) cs
      else (p = UNDERSCORE \<or> ascii_lower p = ascii_lower c) \<and> like ps cs)"

definition search_employees :: "pystr \<Rightarrow> employee_tab \<Rightarrow> employee_tab" where
  "search_employees search_text tab =
     (let norm_search = normalize_arabic search_text;
          like_text = [PERCENT] @ norm_search @ [PERCENT]
      in tab\<lparr>table :=
               filter (\<lambda>r. like like_text (cols r Name)
                          \<or> like like_text (cols r Department)
                          \<or> like like_text (cols r File_no)
                          \<or> like like_text (cols r National_id))
                      (employee (conn tab))\<rparr>)"

section \<open>Attachments on disk\<close>

text \<open>
  The files on disk, by path, with their content as a list of bytes. What depends on the
  platform is a parameter: \<open>os.path.join\<close>, \<open>os.path.basename\<close>, \<open>mimetypes.guess_type\<close>,
  and whether a file can be opened for writing at a path.
\<close>

type_synonym bytes = "nat list"
type_synonym filesystem = "pystr \<Rightarrow> bytes option"

record platform =
  path_join :: "pystr \<Rightarrow> pystr \<Rightarrow> pystr"
  path_basename :: "pystr \<Rightarrow> pystr"
  guess_type :: "pystr \<Rightarrow> pystr option"
  can_create :: "pystr \<Rightarrow> bool"

definition ATTACHMENTS_DIR :: pystr where
  "ATTACHMENTS_DIR = [97, 116, 116, 97, 99, 104, 109, 101, 110, 116, 115]"

definition get_employee_folder :: "platform \<Rightarrow> pystr \<Rightarrow> pystr" where
  "get_employee_folder os file_no = path_join os ATTACHMENTS_DIR file_no"

text \<open>
  \<open>with open(f, "rb") as src, open(dest, "wb") as dst: dst.write(src.read())\<close>;
  \<open>None\<close> when one of the two files cannot be opened (the exception).
\<close>

definition copy_file :: "platform \<Rightarrow> filesystem \<Rightarrow> pystr \<Rightarrow> pystr \<Rightarrow> filesystem option" where
  "copy_file os fs f dest =
     (case fs f of
        None \<Rightarrow> None
      | Some content \<Rightarrow> if can_create os dest then Some (fs(dest \<mapsto> content)) else None)"

definition path_exists :: "filesystem \<Rightarrow> pystr \<Rightarrow> bool" where
  "path_exists fs p = (fs p \<noteq> None)"

text \<open>
  One round of the loop of \<open>upload_files\<close>, for the chosen file \<open>f\<close>; \<open>now\<close> is the formatted
  time of the upload. A copy that fails skips the rest of the round.
\<close>

definition upload_file ::
  "platform \<Rightarrow> pystr \<Rightarrow> pystr \<Rightarrow> pystr \<Rightarrow> filesystem \<times> employee_tab \<Rightarrow> filesystem \<times> employee_tab" where
  "upload_file os now emp_folder f st =
     (let (fs, tab) = st;
          fname = path_basename os f;
          dest = path_join os emp_folder fname;
          copied = (if \<not> path_exists fs dest then copy_file os fs f dest else Some fs)
      in case copied of
           None \<Rightarrow> (fs, tab)
         | Some fs' \<Rightarrow>
             (let tab1 = tab\<lparr>attach_list := attach_list tab @ [fname],
                             attachments := attachments tab @ [(fname, dest)]\<rparr>
              in case selected_emp_id tab1 of
                   None \<Rightarrow> (fs', tab1)
                 | Some i \<Rightarrow>
                     (fs', tab1\<lparr>conn :=
                             insert_attachment i fname dest
                               (Some (case guess_type os dest of None \<Rightarrow> [] | Some t \<Rightarrow> t))
                               (Some now) 0 (conn tab1)\<rparr>)))"

text \<open>\<open>upload_files\<close>; \<open>files\<close> are the paths chosen in the dialog.\<close>

definition upload_files ::
  "platform \<Rightarrow> pystr \<Rightarrow> pystr list \<Rightarrow> filesystem \<times> employee_tab
     \<Rightarrow> message \<times> filesystem \<times> employee_tab" where
  "upload_files os now files st =
     (let file_no = form_fields (snd st) File_no
      in if file_no = [] then (Critical_no_file_no, st)
         else (Silent, fold (upload_file os now (get_employee_folder os file_no)) files st))"

text \<open>
  \<open>upload_photo\<close>; \<open>f\<close> is the path chosen in the dialog (empty when the dialog is
  cancelled). The copy is not guarded: when it fails the exception leaves the slot.
\<close>

definition PHOTO_PREFIX :: pystr where
  "PHOTO_PREFIX = [112, 104, 111, 116, 111, 95]"

definition upload_photo ::
  "platform \<Rightarrow> pystr \<Rightarrow> pystr \<Rightarrow> filesystem \<times> employee_tab
     \<Rightarrow> message \<times> filesystem \<times> employee_tab" where
  "upload_photo os now f st =
     (let (fs, tab) = st
      in if f = [] then (Silent, st)
         else
           (let file_no = form_fields tab File_no
            in if file_no = [] then (Critical_no_file_no, st)
               else
                 (let emp_folder = get_employee_folder os file_no;
                      fname = PHOTO_PREFIX @ path_basename os f;
                      dest = path_join os emp_folder fname
                  in case copy_file os fs f dest of
                       None \<Rightarrow> (Raised, st)
                     | Some fs' \<Rightarrow>
                         (let tab1 = tab\<lparr>photo_path := Some dest\<rparr>
                          in case selected_emp_id tab1 of
                               None \<Rightarrow> (Silent, fs', tab1)
                             | Some i \<Rightarrow>
                                 (Silent, fs', tab1\<lparr>conn :=
                                    insert_attachment i fname dest
                                      (Some (case guess_type os dest of None \<Rightarrow> [] | Some t \<Rightarrow> t))
                                      (Some now) 1 (conn tab1)\<rparr>)))))"

section \<open>Reports\<close>

text \<open>
  The table of the exported document: the cells of the one header row and of the body
  rows, in the order the markup lists them. The markup around the cells (style sheet,
  title, page size) is constant text. A cell shows its text, the empty string for an
  empty value.
\<close>

record html_table =
  thead :: "pystr list"
  tbody :: "pystr list list"

definition export_html :: "connection \<Rightarrow> html_table" where
  "export_html c =
     (let rows = map (\<lambda>r. map (cols r) EMPLOYEE_FIELDS) (employee c);
          headers = map AR_LABELS EMPLOYEE_FIELDS
      in \<lparr>thead = rev headers,
          tbody = map (\<lambda>row. map (\<lambda>cell. if cell \<noteq> [] then cell else []) (rev row)) rows\<rparr>)"

text \<open>
  \<open>export_pdf\<close>: \<open>file_path\<close> is the path from the save dialog (empty when cancelled) and
  \<open>written\<close> tells whether the PDF writer returned without an exception. The result is
  the outcome and the connection's database after the call.
\<close>

datatype export_result =
    Export_cancelled
  | Export_done html_table
  | Export_failed

definition export_pdf :: "pystr \<Rightarrow> bool \<Rightarrow> connection \<Rightarrow> export_result \<times> connection" where
  "export_pdf file_path written c =
     (let doc = export_html c
      in if file_path = [] then (Export_cancelled, c)
         else if written then (Export_done doc, c)
         else (Export_failed, c))"

section \<open>Example states\<close>

text \<open>
  Concrete states on which the theorems below are instantiated: a platform whose paths
  are joined with a slash, a database of two employees with one attachment each, and a
  tab over it with an empty form.
\<close>

definition empty_connection :: connection where
  "empty_connection = \<lparr>employee = [], attachment = [], employee_seq = 0, attachment_seq = 0\<rparr>"

definition ex_os :: platform where
  "ex_os = \<lparr>path_join = (\<lambda>a b. a @ [47] @ b),
            path_basename = (\<lambda>p. rev (takeWhile (\<lambda>c. c \<noteq> 47) (rev p))),
            guess_type = (\<lambda>p. None),
            can_create = (\<lambda>p. True)\<rparr>"

definition ex_row :: "nat \<Rightarrow> pystr \<Rightarrow> pystr \<Rightarrow> pystr \<Rightarrow> employee_row" where
  "ex_row i n f nid = \<lparr>emp_id = i, cols = (\<lambda>c. [])(Name := n, File_no := f, National_id := nid)\<rparr>"

definition ex_conn :: connection where
  "ex_conn =
     \<lparr>employee = [ex_row 1 [65, 104, 109, 101, 100] [55] [49, 50, 51, 52, 53, 54, 55, 56, 57, 48, 49, 50, 51, 52],
                  ex_row 2 [83, 97, 114, 97] [56] [50, 50, 51, 52, 53, 54, 55, 56, 57, 48, 49, 50, 51, 52]],
      attachment = [\<lparr>att_id = 1, employee_id = 1, filename = [120], filepath = [97, 47, 120],
                      filetype = None, upload_date = None, is_photo = 0\<rparr>,
                    \<lparr>att_id = 2, employee_id = 2, filename = [121], filepath = [97, 47, 121],
                      filetype = None, upload_date = None, is_photo = 0\<rparr>],
      employee_seq = 2, attachment_seq = 2\<rparr>"

definition ex_tab :: employee_tab where
  "ex_tab = \<lparr>conn = ex_conn, selected_emp_id = None, attachments = [], photo_path = None,
             form_fields = (\<lambda>f. []), table = employee ex_conn, attach_list = []\<rparr>"

definition ex_today :: pydate where "ex_today = Date 2025 11 4"

definition ex_form_taken :: "field \<Rightarrow> pystr" where
  "ex_form_taken = (\<lambda>f. [])(Name := [65], File_no := [32, 55], National_id := [49, 50])"

definition ex_form_valid :: "field \<Rightarrow> pystr" where
  "ex_form_valid =
     (\<lambda>f. [])(Name := [65, 108, 105], File_no := [57],
              National_id := [49, 50, 51, 52, 53, 54, 55, 56, 57, 48, 49, 50, 51, 52],
              Hire_date := [50, 48, 48, 48, 45, 48, 49, 45, 48, 49])"

definition ex_form_short_id :: "field \<Rightarrow> pystr" where
  "ex_form_short_id = ex_form_valid(National_id := [49, 50, 51, 52, 53])"

definition ex_form_future :: "field \<Rightarrow> pystr" where
  "ex_form_future = ex_form_valid(Hire_date := [50, 57, 57, 57, 45, 48, 49, 45, 48, 49])"

definition new_tab :: "(field \<Rightarrow> pystr) \<Rightarrow> employee_tab" where
  "new_tab form =
     \<lparr>conn = empty_connection, selected_emp_id = None, attachments = [], photo_path = None,
      form_fields = form, table = [], attach_list = []\<rparr>"

definition ex_form_alef_a :: "field \<Rightarrow> pystr" where
  "ex_form_alef_a =
     (\<lambda>f. [])(Name := [65], File_no := [1571],
              National_id := [49, 50, 51, 52, 53, 54, 55, 56, 57, 48, 49, 50, 51, 52])"

definition ex_form_alef_b :: "field \<Rightarrow> pystr" where
  "ex_form_alef_b =
     (\<lambda>f. [])(Name := [66], File_no := [1571],
              National_id := [49, 50, 51, 52, 53, 54, 55, 56, 57, 48, 49, 50, 51, 53])"

definition ex_after_first :: employee_tab where
  "ex_after_first = snd (add_employee ex_today (new_tab ex_form_alef_a))"

definition ex_after_second :: employee_tab where
  "ex_after_second =
     snd (add_employee ex_today (ex_after_first\<lparr>form_fields := ex_form_alef_b\<rparr>))"

definition ex_form_own :: "field \<Rightarrow> pystr" where
  "ex_form_own =
     (\<lambda>f. [])(Name := [65, 104, 109, 97, 100], File_no := [55],
              National_id := [49, 50, 51, 52, 53, 54, 55, 56, 57, 48, 49, 50, 51, 52],
              Department := [72, 82])"

definition ex_tab_editing :: employee_tab where
  "ex_tab_editing = ex_tab\<lparr>selected_emp_id := Some 1, form_fields := ex_form_own\<rparr>"

definition ex_form_upload :: "field \<Rightarrow> pystr" where
  "ex_form_upload = (\<lambda>f. [])(File_no := [55])"

definition ex_src_a :: pystr where "ex_src_a = [47, 97, 47, 120, 46, 112, 110, 103]"

definition ex_src_b :: pystr where "ex_src_b = [47, 98, 47, 120, 46, 112, 110, 103]"

definition ex_dest :: pystr where
  "ex_dest = ATTACHMENTS_DIR @ [47, 55, 47, 120, 46, 112, 110, 103]"

definition ex_photo_dest :: pystr where
  "ex_photo_dest = ATTACHMENTS_DIR @ [47, 55, 47] @ PHOTO_PREFIX @ [120, 46, 112, 110, 103]"

definition ex_fs :: filesystem where
  "ex_fs = (\<lambda>p. None)(ex_src_a \<mapsto> [1, 2, 3], ex_src_b \<mapsto> [4, 5])"

definition ex_fs_photo :: filesystem where
  "ex_fs_photo = (\<lambda>p. None)(ex_src_a \<mapsto> [1, 2, 3], ex_photo_dest \<mapsto> [9, 9])"

definition ex_selected_first :: employee_tab where
  "ex_selected_first =
     (case on_row_select 0 ex_after_second of Some tab \<Rightarrow> tab | None \<Rightarrow> ex_after_second)"


section \<open>Auxiliary notions for the proofs\<close>

text \<open>What the replacement table does to one character.\<close>

definition canon_char :: "pychar \<Rightarrow> pychar" where
  "canon_char c =
     (if c = ALEF_HAMZA_ABOVE \<or> c = ALEF_HAMZA_BELOW \<or> c = ALEF_MADDA then ALEF
      else if c = TA_MARBUTA then HA
      else if c = ALEF_MAKSURA then YA
      else c)"

text \<open>
  The checks of the validation as the specification lists them: the text of a field
  after trimming, whether a value is held by a row other than the skipped one, whether a
  date text is acceptable and which message it earns otherwise, the ten checks in their
  order (each with what it passes on and its message), and the first failure of a list
  of checks.
\<close>

definition form_text :: "employee_tab \<Rightarrow> field \<Rightarrow> pystr" where
  "form_text tab f = strip (form_fields tab f)"

definition taken :: "field \<Rightarrow> pystr \<Rightarrow> nat option \<Rightarrow> connection \<Rightarrow> bool" where
  "taken column v skip_id c =
     list_ex (\<lambda>r. cols r column = v \<and> Some (emp_id r) \<noteq> skip_id) (employee c)"

definition date_ok :: "pydate \<Rightarrow> pystr \<Rightarrow> bool" where
  "date_ok today s =
     (s = [] \<or> (case strptime_ymd s of None \<Rightarrow> False | Some d \<Rightarrow> \<not> date_gt d today))"

definition date_error :: "field \<Rightarrow> pystr \<Rightarrow> validation_error" where
  "date_error f s = (case strptime_ymd s of None \<Rightarrow> Date_format f | Some d \<Rightarrow> Date_in_future f)"

definition ordered_checks ::
  "pydate \<Rightarrow> employee_tab \<Rightarrow> nat option \<Rightarrow> (bool \<times> validation_error) list" where
  "ordered_checks today tab skip_id =
     [(form_text tab Name \<noteq> [], Name_required),
      (form_text tab File_no \<noteq> [], File_no_required),
      (\<not> taken File_no (form_text tab File_no) skip_id (conn tab), File_no_taken),
      (form_text tab National_id \<noteq> [], National_id_required),
      (isdigit (form_text tab National_id) \<and> length (form_text tab National_id) = 14,
       National_id_format),
      (\<not> taken National_id (form_text tab National_id) skip_id (conn tab), National_id_taken),
      (form_text tab Phone = [] \<or> isdigit (form_text tab Phone), Phone_format),
      (date_ok today (form_text tab Grade_date), date_error Grade_date (form_text tab Grade_date)),
      (date_ok today (form_text tab Hire_date), date_error Hire_date (form_text tab Hire_date)),
      (date_ok today (form_text tab Birth_date), date_error Birth_date (form_text tab Birth_date))]"

definition first_failure :: "(bool \<times> 'e) list \<Rightarrow> 'e option" where
  "first_failure checks = map_option snd (find (\<lambda>(ok, e). \<not> ok) checks)"




section \<open>Properties of the text layer\<close>

lemmas letter_defs =
  TATWEEL_def ALEF_HAMZA_ABOVE_def ALEF_HAMZA_BELOW_def ALEF_MADDA_def TA_MARBUTA_def
  ALEF_MAKSURA_def ALEF_def HA_def YA_def

lemma set_lstrip: "set (lstrip s) \<subseteq> set s"
  unfolding lstrip_def by (rule set_dropWhileD [THEN subsetI])

lemma set_rstrip: "set (rstrip s) \<subseteq> set s"
proof -
  have "set (dropWhile isspace (rev s)) \<subseteq> set (rev s)"
    by (rule subsetI) (rule set_dropWhileD)
  then show ?thesis by (simp add: rstrip_def)
qed

lemma set_strip: "set (strip s) \<subseteq> set s"
  unfolding strip_def using set_rstrip set_lstrip by blast

lemma fold_replacements:
  "fold (\<lambda>(src, target) t. replace_char src target t) replacements s = map canon_char s"
  by (simp add: replacements_def replace_char_def canon_char_def letter_defs)

lemma normalize_arabic_eq:
  "normalize_arabic s = strip (map canon_char (remove_char TATWEEL s))"
  by (simp add: normalize_arabic_def fold_replacements remove_char_def strip_def lstrip_def rstrip_def)

lemma rstrip_Cons:
  "rstrip (x # xs) = (if rstrip xs = [] \<and> isspace x then [] else x # rstrip xs)"
proof (cases "\<forall>y \<in> set xs. isspace y")
  case True
  then have "dropWhile isspace (rev xs @ [x]) = dropWhile isspace [x]"
    by (intro dropWhile_append2) simp
  moreover from True have "rstrip xs = []"
    by (simp add: rstrip_def dropWhile_eq_Nil_conv)
  ultimately show ?thesis by (simp add: rstrip_def)
next
  case False
  then obtain y where y: "y \<in> set (rev xs)" "\<not> isspace y" by auto
  then have "dropWhile isspace (rev xs @ [x]) = dropWhile isspace (rev xs) @ [x]"
    by (rule dropWhile_append1)
  moreover from False have "rstrip xs \<noteq> []"
    by (simp add: rstrip_def dropWhile_eq_Nil_conv)
  ultimately show ?thesis by (simp add: rstrip_def)
qed

lemma rstrip_Nil [simp]: "rstrip [] = []"
  by (simp add: rstrip_def)

lemma rstrip_idem: "rstrip (rstrip s) = rstrip s"
  by (simp add: rstrip_def)

lemma lstrip_idem: "lstrip (lstrip s) = lstrip s"
  by (simp add: lstrip_def)

lemma dropWhile_fixed_hd: "dropWhile P (x # xs) = x # xs \<Longrightarrow> \<not> P x"
proof
  assume eq: "dropWhile P (x # xs) = x # xs" and "P x"
  then have "dropWhile P xs = x # xs" by simp
  then have "length (dropWhile P xs) = Suc (length xs)" by simp
  moreover have "length (dropWhile P xs) \<le> length xs" by (rule length_dropWhile_le)
  ultimately show False by simp
qed

lemma lstrip_rstrip: "lstrip s = s \<Longrightarrow> lstrip (rstrip s) = rstrip s"
proof (cases s)
  case Nil
  then show ?thesis by (simp add: lstrip_def)
next
  case (Cons x xs)
  assume "lstrip s = s"
  with Cons have "dropWhile isspace (x # xs) = x # xs"
    by (simp only: lstrip_def)
  then have "\<not> isspace x" by (rule dropWhile_fixed_hd)
  with Cons show ?thesis by (simp add: rstrip_Cons lstrip_def)
qed

lemma no_outer_space_strip: "no_outer_space (strip s) = True"
  by (simp add: no_outer_space_def strip_def rstrip_idem lstrip_rstrip lstrip_idem)

lemma strip_fixed: "no_outer_space s \<Longrightarrow> strip s = s"
  by (simp add: no_outer_space_def strip_def)

lemma canon_char_not_tatweel: "c \<noteq> TATWEEL \<Longrightarrow> canon_char c \<noteq> TATWEEL"
  by (simp add: canon_char_def letter_defs)

lemma canon_char_not_variant: "canon_char c \<notin> letter_variants"
  by (simp add: canon_char_def letter_variants_def letter_defs)

lemma canon_char_fixed: "c \<notin> letter_variants \<Longrightarrow> canon_char c = c"
  by (simp add: canon_char_def letter_variants_def)

lemma normalize_no_tatweel: "TATWEEL \<notin> set (normalize_arabic s)"
proof -
  have "TATWEEL \<notin> set (map canon_char (remove_char TATWEEL s))"
    by (auto simp: remove_char_def dest: canon_char_not_tatweel [OF not_sym [THEN not_sym]])
  with set_strip show ?thesis unfolding normalize_arabic_eq by blast
qed

lemma normalize_no_variant: "set (normalize_arabic s) \<inter> letter_variants = {}"
proof -
  have "set (map canon_char (remove_char TATWEEL s)) \<inter> letter_variants = {}"
    using canon_char_not_variant by auto
  with set_strip show ?thesis unfolding normalize_arabic_eq by blast
qed

lemma normalize_fixed:
  assumes "TATWEEL \<notin> set s" "set s \<inter> letter_variants = {}" "no_outer_space s"
  shows "normalize_arabic s = s"
proof -
  from assms(1) have "remove_char TATWEEL s = s"
    by (auto simp: remove_char_def filter_id_conv)
  moreover from assms(2) have "map canon_char s = s"
    by (intro map_idI canon_char_fixed) auto
  ultimately show ?thesis
    by (simp add: normalize_arabic_eq strip_fixed assms(3))
qed

subsection \<open>The normal form\<close>

text \<open>
  Claim C3. For every string \<open>x\<close>, \<open>normalize_arabic x\<close> holds no tatweel and none of the
  letter variants that the table rewrites (the alef forms with hamza or madda, ta
  marbuta, alef maksura), has no whitespace at either end, and normalizing it again
  changes nothing.
\<close>

theorem normalize_arabic_canonical:
  "TATWEEL \<notin> set (normalize_arabic x)
   \<and> set (normalize_arabic x) \<inter> letter_variants = {}
   \<and> no_outer_space (normalize_arabic x)
   \<and> normalize_arabic (normalize_arabic x) = normalize_arabic x"
proof -
  have sp: "no_outer_space (normalize_arabic x)"
    unfolding normalize_arabic_eq by (simp add: no_outer_space_strip)
  with normalize_no_tatweel normalize_no_variant normalize_fixed show ?thesis
    by blast
qed


theorem normalize_arabic_canonical_witness:
  "(TATWEEL \<notin> set (normalize_arabic [32, 1571, 1581, 1600, 1605, 1583, 1577, 32, 1609, 9])
    \<and> set (normalize_arabic [32, 1571, 1581, 1600, 1605, 1583, 1577, 32, 1609, 9])
        \<inter> letter_variants = {}
    \<and> no_outer_space (normalize_arabic [32, 1571, 1581, 1600, 1605, 1583, 1577, 32, 1609, 9])
    \<and> normalize_arabic (normalize_arabic [32, 1571, 1581, 1600, 1605, 1583, 1577, 32, 1609, 9])
        = normalize_arabic [32, 1571, 1581, 1600, 1605, 1583, 1577, 32, 1609, 9])
   \<and> normalize_arabic [32, 1571, 1581, 1600, 1605, 1583, 1577, 32, 1609, 9]
        = [1575, 1581, 1605, 1583, 1607, 32, 1610]"
proof -
  have "normalize_arabic [32, 1571, 1581, 1600, 1605, 1583, 1577, 32, 1609, 9]
          = [1575, 1581, 1605, 1583, 1607, 32, 1610]"
    by (simp add: normalize_arabic_eq canon_char_def remove_char_def strip_def lstrip_def
          rstrip_def isspace_def whitespace_chars_def letter_defs)
  with normalize_arabic_canonical [of "[32, 1571, 1581, 1600, 1605, 1583, 1577, 32, 1609, 9]"]
  show ?thesis by (rule conjI)
qed

section \<open>Properties of the store\<close>

lemma employee_insert_attachment [simp]:
  "employee (insert_attachment e n p t u ph c) = employee c"
  by (simp add: insert_attachment_def Let_def)

lemma employee_insert_pending [simp]: "employee (insert_pending i ph pend c) = employee c"
proof -
  have "employee (fold (\<lambda>(fname, fpath) c'. insert_attachment i fname fpath None None
            (if Some fpath = ph then 1 else 0) c') pend c) = employee c"
    by (induction pend arbitrary: c) (auto simp: split_def)
  then show ?thesis by (simp add: insert_pending_def)
qed

lemma employee_delete_attachments [simp]: "employee (delete_attachments i c) = employee c"
  by (simp add: delete_attachments_def)

lemma row_cols_map: "row_cols (map g EMPLOYEE_FIELDS) f = g f"
  by (cases f) (simp_all add: row_cols_def EMPLOYEE_FIELDS_def)

lemma table_search_subset:
  "set (table (search_employees q tab)) \<subseteq> set (employee (conn tab))"
  by (auto simp: search_employees_def Let_def)

subsection \<open>Deleting an employee\<close>

text \<open>
  Claim C7. With an employee selected and the question confirmed, \<open>delete_employee\<close>
  removes the employee row with the selected key and every attachment row whose
  \<open>employee_id\<close> is that key, and keeps every other row; whatever is searched for
  afterwards on the resulting state, no row shown has the deleted key.
\<close>

theorem delete_employee_removes:
  assumes "selected_emp_id tab = Some i"
  shows "fst (delete_employee True tab) = Information_deleted
         \<and> set (employee (conn (snd (delete_employee True tab))))
             = {r. r \<in> set (employee (conn tab)) \<and> emp_id r \<noteq> i}
         \<and> set (attachment (conn (snd (delete_employee True tab))))
             = {a. a \<in> set (attachment (conn tab)) \<and> employee_id a \<noteq> i}
         \<and> (\<forall>q. i \<notin> set (map emp_id (table (search_employees q (snd (delete_employee True tab))))))"
proof -
  let ?tab' = "snd (delete_employee True tab)"
  have e: "employee (conn ?tab') = filter (\<lambda>r. emp_id r \<noteq> i) (employee (conn tab))"
    using assms
    by (simp add: delete_employee_def Let_def clear_form_def load_employees_def
          delete_employee_row_def delete_attachments_def)
  have a: "attachment (conn ?tab') = filter (\<lambda>a. employee_id a \<noteq> i) (attachment (conn tab))"
    using assms
    by (simp add: delete_employee_def Let_def clear_form_def load_employees_def
          delete_employee_row_def delete_attachments_def)
  have m: "fst (delete_employee True tab) = Information_deleted"
    using assms by (simp add: delete_employee_def Let_def)
  have s: "i \<notin> set (map emp_id (table (search_employees q ?tab')))" for q
  proof
    assume "i \<in> set (map emp_id (table (search_employees q ?tab')))"
    then obtain r where "r \<in> set (table (search_employees q ?tab'))" "emp_id r = i" by auto
    with table_search_subset have "r \<in> set (employee (conn ?tab'))" by blast
    with e \<open>emp_id r = i\<close> show False by simp
  qed
  from e a m s show ?thesis by auto
qed

theorem delete_employee_removes_witness:
  "selected_emp_id (ex_tab\<lparr>selected_emp_id := Some 1\<rparr>) = Some 1
   \<and> map emp_id (employee (conn (snd (delete_employee True (ex_tab\<lparr>selected_emp_id := Some 1\<rparr>))))) = [2]
   \<and> map att_id (attachment (conn (snd (delete_employee True (ex_tab\<lparr>selected_emp_id := Some 1\<rparr>))))) = [2]
   \<and> 1 \<notin> set (map emp_id (table (search_employees [97]
              (snd (delete_employee True (ex_tab\<lparr>selected_emp_id := Some 1\<rparr>))))))"
proof -
  have sel: "selected_emp_id (ex_tab\<lparr>selected_emp_id := Some 1\<rparr>) = Some 1" by simp
  have ev: "map emp_id (employee (conn (snd (delete_employee True (ex_tab\<lparr>selected_emp_id := Some 1\<rparr>))))) = [2]
    \<and> map att_id (attachment (conn (snd (delete_employee True (ex_tab\<lparr>selected_emp_id := Some 1\<rparr>))))) = [2]"
    by (simp add: delete_employee_def Let_def clear_form_def load_employees_def
          delete_employee_row_def delete_attachments_def ex_tab_def ex_conn_def ex_row_def)
  from delete_employee_removes [OF sel] ev sel show ?thesis by blast
qed

subsection \<open>Exporting no records\<close>

text \<open>
  Claim C9. On a database without employees, \<open>export_pdf\<close> with a chosen path and a
  writer that does not fail produces the document whose table has the one header row,
  the labels of the fields in reverse field order, and no body row; and whatever its
  arguments, \<open>export_pdf\<close> leaves the database as it was.
\<close>

theorem export_pdf_no_records:
  "(employee c = [] \<longrightarrow> file_path \<noteq> [] \<longrightarrow> written \<longrightarrow>
      fst (export_pdf file_path written c)
        = Export_done \<lparr>thead = [AR_LABELS Notes, AR_LABELS Phone, AR_LABELS Address,
                                 AR_LABELS National_id, AR_LABELS Insurance_no,
                                 AR_LABELS Birth_date, AR_LABELS Current_work,
                                 AR_LABELS Department, AR_LABELS Job_title,
                                 AR_LABELS Type_group, AR_LABELS Functional_group,
                                 AR_LABELS Qualification, AR_LABELS File_no,
                                 AR_LABELS Hire_date, AR_LABELS Grade_date, AR_LABELS Grade,
                                 AR_LABELS Name],
                        tbody = []\<rparr>)
   \<and> snd (export_pdf file_path written c) = c"
  by (simp add: export_pdf_def export_html_def EMPLOYEE_FIELDS_def Let_def)

theorem export_pdf_no_records_witness:
  "employee empty_connection = [] \<and> [114, 46, 112, 100, 102] \<noteq> ([] :: pystr)
   \<and> fst (export_pdf [114, 46, 112, 100, 102] True empty_connection)
        = Export_done \<lparr>thead = [AR_LABELS Notes, AR_LABELS Phone, AR_LABELS Address,
                                 AR_LABELS National_id, AR_LABELS Insurance_no,
                                 AR_LABELS Birth_date, AR_LABELS Current_work,
                                 AR_LABELS Department, AR_LABELS Job_title,
                                 AR_LABELS Type_group, AR_LABELS Functional_group,
                                 AR_LABELS Qualification, AR_LABELS File_no,
                                 AR_LABELS Hire_date, AR_LABELS Grade_date, AR_LABELS Grade,
                                 AR_LABELS Name],
                        tbody = []\<rparr>
   \<and> snd (export_pdf [114, 46, 112, 100, 102] True empty_connection) = empty_connection"
proof -
  have e: "employee empty_connection = []" by (simp add: empty_connection_def)
  have p: "[114, 46, 112, 100, 102] \<noteq> ([] :: pystr)" by simp
  from export_pdf_no_records [of empty_connection "[114, 46, 112, 100, 102]" True] e p
  show ?thesis by simp
qed

section \<open>Properties of the validation\<close>

lemma fetchone_select:
  "(fetchone (select_where column v skip_id c) \<noteq> None) = taken column v skip_id c"
proof -
  have f: "(filter (\<lambda>r. cols r column = v \<and> (case skip_id of None \<Rightarrow> True | Some i \<Rightarrow> emp_id r \<noteq> i)) rows \<noteq> [])
        = list_ex (\<lambda>r. cols r column = v \<and> Some (emp_id r) \<noteq> skip_id) rows" for rows
    by (induction rows) (auto split: option.splits)
  have m: "(fetchone (map emp_id xs) \<noteq> None) = (xs \<noteq> [])" for xs
    by (cases xs) (simp_all add: fetchone_def)
  show ?thesis
    unfolding select_where_def taken_def m by (rule f)
qed

lemma taken_iff:
  "taken column v skip_id c
     = (\<exists>r. r \<in> set (employee c) \<and> cols r column = v \<and> Some (emp_id r) \<noteq> skip_id)"
  by (auto simp: taken_def list_ex_iff)

lemma check_dates_eq:
  "check_dates today form [Grade_date, Hire_date, Birth_date]
     = first_failure
         [(date_ok today (strip (form Grade_date)), date_error Grade_date (strip (form Grade_date))),
          (date_ok today (strip (form Hire_date)), date_error Hire_date (strip (form Hire_date))),
          (date_ok today (strip (form Birth_date)), date_error Birth_date (strip (form Birth_date)))]"
  by (simp add: first_failure_def date_ok_def date_error_def Let_def split: option.splits)

lemma first_failure_Cons:
  "first_failure ((ok, e) # rest) = (if ok then first_failure rest else Some e)"
  by (simp add: first_failure_def)

lemma validate_eq_first_failure:
  "validate_employee_form today tab skip_id = first_failure (ordered_checks today tab skip_id)"
  unfolding validate_employee_form_def ordered_checks_def Let_def fetchone_select
    date_fields_def check_dates_eq form_text_def [symmetric] first_failure_Cons
  by (simp add: form_text_def)

lemma isdigit_char_ascii: "48 \<le> c \<Longrightarrow> c \<le> 57 \<Longrightarrow> isdigit_char c"
  by (simp add: isdigit_char_def isdecimal_def decimal_zeros_def)

lemmas strip_eval = strip_def lstrip_def rstrip_def isspace_def whitespace_chars_def

lemmas ex_eval = ex_tab_def ex_conn_def ex_row_def

subsection \<open>The order of the checks\<close>

text \<open>
  Claim C2. \<open>validate_employee_form\<close> returns the first failure of the checks taken in
  the order name present, file number present, file number not taken, national
  identifier present, national identifier well formed, national identifier not taken,
  phone well formed, then the dates \<open>grade_date\<close>, \<open>hire_date\<close>, \<open>birth_date\<close>; and when
  the validation fails, \<open>add_employee\<close> and \<open>edit_employee\<close> return the state they were
  given, so that neither the employee table nor the attachment table is written.
\<close>

theorem validation_order_no_partial_write:
  "validate_employee_form today tab skip_id = first_failure (ordered_checks today tab skip_id)
   \<and> (validate_employee_form today tab (selected_emp_id tab) = Some e \<longrightarrow>
        add_employee today tab = (Critical_invalid e, tab))
   \<and> (selected_emp_id tab = Some i \<longrightarrow> validate_employee_form today tab (Some i) = Some e \<longrightarrow>
        edit_employee today tab = (Critical_invalid e, tab))"
  by (simp add: validate_eq_first_failure [symmetric] add_employee_def edit_employee_def Let_def)

theorem validation_order_no_partial_write_witness:
  "validate_employee_form ex_today (ex_tab\<lparr>form_fields := ex_form_taken\<rparr>) None = Some File_no_taken
   \<and> first_failure (ordered_checks ex_today (ex_tab\<lparr>form_fields := ex_form_taken\<rparr>) None)
        = Some File_no_taken
   \<and> add_employee ex_today (ex_tab\<lparr>form_fields := ex_form_taken\<rparr>)
        = (Critical_invalid File_no_taken, ex_tab\<lparr>form_fields := ex_form_taken\<rparr>)"
proof -
  let ?tab = "ex_tab\<lparr>form_fields := ex_form_taken\<rparr>"
  have sel: "selected_emp_id ?tab = None" by (simp add: ex_tab_def)
  have v: "validate_employee_form ex_today ?tab None = Some File_no_taken"
    by (simp add: validate_employee_form_def Let_def strip_eval fetchone_def select_where_def
          ex_eval ex_form_taken_def)
  from validation_order_no_partial_write [of ex_today ?tab None File_no_taken] v sel
  show ?thesis by simp
qed

lemma isdecimal_ascii: "48 \<le> c \<Longrightarrow> c \<le> 57 \<Longrightarrow> isdecimal c"
  by (simp add: isdecimal_def decimal_zeros_def)

lemma digit_value_ascii: "48 \<le> c \<Longrightarrow> c \<le> 57 \<Longrightarrow> digit_value c = c - 48"
  by (simp add: digit_value_def decimal_zeros_def)

lemma strptime_2999: "strptime_ymd [50, 57, 57, 57, 45, 48, 49, 45, 48, 49] = Some (Date 2999 1 1)"
  by (simp add: strptime_ymd_def isdecimal_ascii digit_value_ascii ascii_digit_def HYPHEN_def
        make_date_def days_in_month_def)

lemma strptime_2000: "strptime_ymd [50, 48, 48, 48, 45, 48, 49, 45, 48, 49] = Some (Date 2000 1 1)"
  by (simp add: strptime_ymd_def isdecimal_ascii digit_value_ascii ascii_digit_def HYPHEN_def
        make_date_def days_in_month_def)

lemma first_failure_None:
  "(first_failure ((ok, e) # rest) = None) = (ok \<and> first_failure rest = None)"
  by (simp add: first_failure_Cons)

lemma first_failure_Nil: "first_failure [] = None"
  by (simp add: first_failure_def)

lemma date_ok_iff:
  "date_ok today s = (s = [] \<or> (\<exists>d. strptime_ymd s = Some d \<and> \<not> date_gt d today))"
  by (auto simp: date_ok_def split: option.splits)

lemma isdigit_14: "(isdigit s \<and> length s = 14) = (length s = 14 \<and> list_all isdigit_char s)"
  by (auto simp: isdigit_def)

lemma validate_None_iff:
  "(validate_employee_form today tab skip_id = None) =
     (form_text tab Name \<noteq> [] \<and> form_text tab File_no \<noteq> []
      \<and> \<not> taken File_no (form_text tab File_no) skip_id (conn tab)
      \<and> form_text tab National_id \<noteq> []
      \<and> (isdigit (form_text tab National_id) \<and> length (form_text tab National_id) = 14)
      \<and> \<not> taken National_id (form_text tab National_id) skip_id (conn tab)
      \<and> (form_text tab Phone = [] \<or> isdigit (form_text tab Phone))
      \<and> date_ok today (form_text tab Grade_date)
      \<and> date_ok today (form_text tab Hire_date)
      \<and> date_ok today (form_text tab Birth_date))"
  unfolding validate_eq_first_failure ordered_checks_def first_failure_None first_failure_Nil
  by simp

subsection \<open>What the validation accepts\<close>

text \<open>
  Claim C6. On the trimmed text of the form: the validation passes exactly when the name
  and the file number are present, the file number and the national identifier are not
  taken, the national identifier is exactly 14 characters that are all digits, the phone
  is empty or all digits, and each date field is empty or parses as year-month-day to a
  date that is not after today. It stops at the national identifier (as missing or
  malformed) exactly when the earlier checks pass and the identifier is not 14 digits.
  \<open>12345\<close> is not 14 digits and \<open>12345678901234\<close> is; \<open>2999-01-01\<close> and \<open>2000-01-01\<close> parse
  to the dates they denote.
\<close>

theorem validation_accepts_formats:
  "((validate_employee_form today tab skip_id = None) =
      (form_text tab Name \<noteq> [] \<and> form_text tab File_no \<noteq> []
       \<and> \<not> taken File_no (form_text tab File_no) skip_id (conn tab)
       \<and> (length (form_text tab National_id) = 14
          \<and> list_all isdigit_char (form_text tab National_id))
       \<and> \<not> taken National_id (form_text tab National_id) skip_id (conn tab)
       \<and> (form_text tab Phone = [] \<or> list_all isdigit_char (form_text tab Phone))
       \<and> (form_text tab Grade_date = []
          \<or> (\<exists>d. strptime_ymd (form_text tab Grade_date) = Some d \<and> \<not> date_gt d today))
       \<and> (form_text tab Hire_date = []
          \<or> (\<exists>d. strptime_ymd (form_text tab Hire_date) = Some d \<and> \<not> date_gt d today))
       \<and> (form_text tab Birth_date = []
          \<or> (\<exists>d. strptime_ymd (form_text tab Birth_date) = Some d \<and> \<not> date_gt d today))))
   \<and> ((validate_employee_form today tab skip_id = Some National_id_required
        \<or> validate_employee_form today tab skip_id = Some National_id_format) =
      (form_text tab Name \<noteq> [] \<and> form_text tab File_no \<noteq> []
       \<and> \<not> taken File_no (form_text tab File_no) skip_id (conn tab)
       \<and> \<not> (length (form_text tab National_id) = 14
            \<and> list_all isdigit_char (form_text tab National_id))))
   \<and> \<not> (length [49, 50, 51, 52, 53 :: pychar] = 14
        \<and> list_all isdigit_char [49, 50, 51, 52, 53])
   \<and> (length [49, 50, 51, 52, 53, 54, 55, 56, 57, 48, 49, 50, 51, 52 :: pychar] = 14
      \<and> list_all isdigit_char [49, 50, 51, 52, 53, 54, 55, 56, 57, 48, 49, 50, 51, 52])
   \<and> strptime_ymd [50, 57, 57, 57, 45, 48, 49, 45, 48, 49] = Some (Date 2999 1 1)
   \<and> strptime_ymd [50, 48, 48, 48, 45, 48, 49, 45, 48, 49] = Some (Date 2000 1 1)"
proof -
  have a: "(validate_employee_form today tab skip_id = None) =
      (form_text tab Name \<noteq> [] \<and> form_text tab File_no \<noteq> []
       \<and> \<not> taken File_no (form_text tab File_no) skip_id (conn tab)
       \<and> (length (form_text tab National_id) = 14
          \<and> list_all isdigit_char (form_text tab National_id))
       \<and> \<not> taken National_id (form_text tab National_id) skip_id (conn tab)
       \<and> (form_text tab Phone = [] \<or> list_all isdigit_char (form_text tab Phone))
       \<and> (form_text tab Grade_date = []
          \<or> (\<exists>d. strptime_ymd (form_text tab Grade_date) = Some d \<and> \<not> date_gt d today))
       \<and> (form_text tab Hire_date = []
          \<or> (\<exists>d. strptime_ymd (form_text tab Hire_date) = Some d \<and> \<not> date_gt d today))
       \<and> (form_text tab Birth_date = []
          \<or> (\<exists>d. strptime_ymd (form_text tab Birth_date) = Some d \<and> \<not> date_gt d today)))"
    unfolding validate_None_iff date_ok_iff isdigit_14
    by (auto simp: isdigit_def)
  have b: "(validate_employee_form today tab skip_id = Some National_id_required
        \<or> validate_employee_form today tab skip_id = Some National_id_format) =
      (form_text tab Name \<noteq> [] \<and> form_text tab File_no \<noteq> []
       \<and> \<not> taken File_no (form_text tab File_no) skip_id (conn tab)
       \<and> \<not> (length (form_text tab National_id) = 14
            \<and> list_all isdigit_char (form_text tab National_id)))"
    unfolding validate_eq_first_failure ordered_checks_def first_failure_Cons isdigit_14
    by (auto simp: date_error_def first_failure_Nil split: option.splits if_splits)
  have c: "\<not> (length [49, 50, 51, 52, 53 :: pychar] = 14
        \<and> list_all isdigit_char [49, 50, 51, 52, 53])" by simp
  have d: "length [49, 50, 51, 52, 53, 54, 55, 56, 57, 48, 49, 50, 51, 52 :: pychar] = 14
      \<and> list_all isdigit_char [49, 50, 51, 52, 53, 54, 55, 56, 57, 48, 49, 50, 51, 52]"
    by (simp add: isdigit_char_ascii)
  from a b c d strptime_2999 strptime_2000 show ?thesis by blast
qed

lemmas validate_eval =
  validate_employee_form_def Let_def strip_eval fetchone_def select_where_def
  isdigit_def isdigit_char_ascii date_fields_def

theorem validation_accepts_formats_witness:
  "validate_employee_form ex_today (new_tab ex_form_valid) None = None
   \<and> validate_employee_form ex_today (new_tab ex_form_short_id) None = Some National_id_format
   \<and> validate_employee_form ex_today (new_tab ex_form_future) None
        = Some (Date_in_future Hire_date)
   \<and> length (form_text (new_tab ex_form_valid) National_id) = 14
   \<and> (\<exists>d. strptime_ymd (form_text (new_tab ex_form_valid) Hire_date) = Some d
           \<and> \<not> date_gt d ex_today)"
proof -
  have v1: "validate_employee_form ex_today (new_tab ex_form_valid) None = None"
    by (simp add: validate_eval new_tab_def empty_connection_def ex_form_valid_def
          strptime_2000 ex_today_def)
  have v2: "validate_employee_form ex_today (new_tab ex_form_short_id) None
              = Some National_id_format"
    by (simp add: validate_eval new_tab_def empty_connection_def ex_form_valid_def
          ex_form_short_id_def)
  have v3: "validate_employee_form ex_today (new_tab ex_form_future) None
              = Some (Date_in_future Hire_date)"
    by (simp add: validate_eval new_tab_def empty_connection_def ex_form_valid_def
          ex_form_future_def strptime_2999 ex_today_def)
  have h: "form_text (new_tab ex_form_valid) Hire_date \<noteq> []"
    by (simp add: form_text_def new_tab_def ex_form_valid_def strip_eval)
  from validation_accepts_formats [of ex_today "new_tab ex_form_valid" None] v1 h
  have "length (form_text (new_tab ex_form_valid) National_id) = 14
        \<and> (\<exists>d. strptime_ymd (form_text (new_tab ex_form_valid) Hire_date) = Some d
                \<and> \<not> date_gt d ex_today)"
    by blast
  with v1 v2 v3 show ?thesis by blast
qed

lemma validate_File_no_taken_iff:
  "(validate_employee_form today tab skip_id = Some File_no_taken) =
     (form_text tab Name \<noteq> [] \<and> form_text tab File_no \<noteq> []
      \<and> taken File_no (form_text tab File_no) skip_id (conn tab))"
  unfolding validate_eq_first_failure ordered_checks_def first_failure_Cons
  by (auto simp: date_error_def first_failure_Nil split: option.splits if_splits)

lemma validate_National_id_taken_iff:
  "(validate_employee_form today tab skip_id = Some National_id_taken) =
     (form_text tab Name \<noteq> [] \<and> form_text tab File_no \<noteq> []
      \<and> \<not> taken File_no (form_text tab File_no) skip_id (conn tab)
      \<and> length (form_text tab National_id) = 14
      \<and> list_all isdigit_char (form_text tab National_id)
      \<and> taken National_id (form_text tab National_id) skip_id (conn tab))"
  unfolding validate_eq_first_failure ordered_checks_def first_failure_Cons isdigit_14
  by (auto simp: date_error_def first_failure_Nil split: option.splits if_splits)

lemma row_cols_normalized:
  "row_cols (map (\<lambda>f. normalize_arabic (form f)) EMPLOYEE_FIELDS) = (\<lambda>f. normalize_arabic (form f))"
  by (rule ext) (rule row_cols_map)

lemma add_employee_inserts:
  assumes "selected_emp_id tab = None" "validate_employee_form today tab None = None"
  shows "fst (add_employee today tab) = Information_added"
    and "employee (conn (snd (add_employee today tab)))
           = employee (conn tab)
             @ [\<lparr>emp_id = next_rowid (employee_seq (conn tab)) (map emp_id (employee (conn tab))),
                 cols = (\<lambda>f. normalize_arabic (form_fields tab f))\<rparr>]"
  using assms
  by (simp_all add: add_employee_def Let_def insert_employee_def row_cols_normalized
        clear_form_def load_employees_def)

lemma add_employee_updates:
  assumes "selected_emp_id tab = Some i" "validate_employee_form today tab (Some i) = None"
  shows "fst (add_employee today tab) = Information_updated"
    and "employee (conn (snd (add_employee today tab)))
           = map (\<lambda>r. if emp_id r = i
                       then r\<lparr>cols := (\<lambda>f. normalize_arabic (form_fields tab f))\<rparr> else r)
                 (employee (conn tab))"
  using assms
  by (simp_all add: add_employee_def Let_def update_employee_def row_cols_normalized
        clear_form_def load_employees_def)

lemma edit_employee_updates:
  assumes "selected_emp_id tab = Some i" "validate_employee_form today tab (Some i) = None"
  shows "fst (edit_employee today tab) = Information_edited"
    and "employee (conn (snd (edit_employee today tab)))
           = map (\<lambda>r. if emp_id r = i
                       then r\<lparr>cols := (\<lambda>f. normalize_arabic (form_fields tab f))\<rparr> else r)
                 (employee (conn tab))"
  using assms
  by (simp_all add: edit_employee_def Let_def update_employee_def row_cols_normalized
        clear_form_def load_employees_def)

lemma normalize_alef: "normalize_arabic [ALEF_HAMZA_ABOVE] = [ALEF]"
  by (simp add: normalize_arabic_eq canon_char_def remove_char_def strip_eval letter_defs)

lemma strip_alef: "strip [ALEF_HAMZA_ABOVE] = [ALEF_HAMZA_ABOVE]"
  by (simp add: strip_eval letter_defs)

subsection \<open>Which text the uniqueness checks compare\<close>

lemma validate_alef_a: "validate_employee_form ex_today (new_tab ex_form_alef_a) None = None"
  by (simp add: validate_eval new_tab_def empty_connection_def ex_form_alef_a_def)

lemma employee_after_first:
  "employee (conn ex_after_first)
     = [\<lparr>emp_id = 1, cols = (\<lambda>f. normalize_arabic (ex_form_alef_a f))\<rparr>]"
proof -
  have "selected_emp_id (new_tab ex_form_alef_a) = None" by (simp add: new_tab_def)
  from add_employee_inserts(2) [OF this validate_alef_a]
  show ?thesis
    by (simp add: ex_after_first_def new_tab_def empty_connection_def next_rowid_def)
qed

lemma employee_seq_insert_pending [simp]:
  "employee_seq (insert_pending i ph pend c) = employee_seq c"
proof -
  have "employee_seq (fold (\<lambda>(fname, fpath) c'. insert_attachment i fname fpath None None
            (if Some fpath = ph then 1 else 0) c') pend c) = employee_seq c"
    by (induction pend arbitrary: c) (auto simp: split_def insert_attachment_def Let_def)
  then show ?thesis by (simp add: insert_pending_def)
qed

lemma add_employee_inserts_state:
  assumes "selected_emp_id tab = None" "validate_employee_form today tab None = None"
  shows "selected_emp_id (snd (add_employee today tab)) = None
         \<and> employee_seq (conn (snd (add_employee today tab)))
             = next_rowid (employee_seq (conn tab)) (map emp_id (employee (conn tab)))"
  using assms
  by (simp add: add_employee_def Let_def insert_employee_def clear_form_def load_employees_def)

lemma tab_after_first:
  "selected_emp_id ex_after_first = None \<and> employee_seq (conn ex_after_first) = 1"
proof -
  have "selected_emp_id (new_tab ex_form_alef_a) = None" by (simp add: new_tab_def)
  from add_employee_inserts_state [OF this validate_alef_a]
  show ?thesis
    by (simp add: ex_after_first_def new_tab_def empty_connection_def next_rowid_def)
qed

lemma normalize_form_alef_a:
  "normalize_arabic (ex_form_alef_a File_no) = [1575]
   \<and> normalize_arabic (ex_form_alef_a National_id)
       = [49, 50, 51, 52, 53, 54, 55, 56, 57, 48, 49, 50, 51, 52]"
  by (simp add: ex_form_alef_a_def normalize_arabic_eq canon_char_def remove_char_def
        strip_eval letter_defs)

lemma validate_alef_b:
  "validate_employee_form ex_today (ex_after_first\<lparr>form_fields := ex_form_alef_b\<rparr>) None = None"
  by (simp add: validate_eval employee_after_first normalize_form_alef_a ex_form_alef_b_def)

text \<open>
  Claim C1, at the input where it fails. On an empty database a first employee is added
  with the file number \<open>[1571]\<close> (alef with hamza above); a second \<open>add_employee\<close> with the
  same file number and another national identifier is not refused: it is added too, and
  the table then holds two rows whose stored file number is \<open>[1575]\<close> (bare alef).
\<close>

theorem add_employee_same_file_no_twice:
  "ex_form_alef_a File_no = ex_form_alef_b File_no
   \<and> fst (add_employee ex_today (new_tab ex_form_alef_a)) = Information_added
   \<and> fst (add_employee ex_today (ex_after_first\<lparr>form_fields := ex_form_alef_b\<rparr>))
       = Information_added
   \<and> map emp_id (employee (conn ex_after_second)) = [1, 2]
   \<and> map (\<lambda>r. cols r File_no) (employee (conn ex_after_second)) = [[1575], [1575]]"
proof -
  have s0: "selected_emp_id (new_tab ex_form_alef_a) = None" by (simp add: new_tab_def)
  have s1: "selected_emp_id (ex_after_first\<lparr>form_fields := ex_form_alef_b\<rparr>) = None"
    by (simp add: tab_after_first)
  have e2: "employee (conn ex_after_second)
              = [\<lparr>emp_id = 1, cols = (\<lambda>f. normalize_arabic (ex_form_alef_a f))\<rparr>,
                 \<lparr>emp_id = 2, cols = (\<lambda>f. normalize_arabic (ex_form_alef_b f))\<rparr>]"
    unfolding ex_after_second_def
    using add_employee_inserts(2) [OF s1 validate_alef_b]
    by (simp add: employee_after_first tab_after_first next_rowid_def)
  have n: "normalize_arabic (ex_form_alef_b File_no) = [1575]"
    by (simp add: ex_form_alef_b_def normalize_arabic_eq canon_char_def remove_char_def
          strip_eval letter_defs)
  have f: "ex_form_alef_a File_no = ex_form_alef_b File_no"
    by (simp add: ex_form_alef_a_def ex_form_alef_b_def)
  from f add_employee_inserts(1) [OF s0 validate_alef_a]
    add_employee_inserts(1) [OF s1 validate_alef_b] e2 n normalize_form_alef_a
  show ?thesis by simp
qed

text \<open>
  Claim C10. The uniqueness checks look for the trimmed text of the form, as typed: the
  validation stops at "file number taken" exactly when name and file number are present
  and a row other than the skipped one holds \<open>strip\<close> of the form's file number, and
  likewise for the national identifier. What \<open>add_employee\<close> and \<open>edit_employee\<close> store is
  \<open>normalize_arabic\<close> of the form's text, in every column. The two can differ: for the
  alef with hamza above, the trimmed text is the letter itself and the stored text is
  the bare alef.
\<close>

theorem uniqueness_compares_trimmed_text:
  "((validate_employee_form today tab skip_id = Some File_no_taken) =
      (strip (form_fields tab Name) \<noteq> [] \<and> strip (form_fields tab File_no) \<noteq> []
       \<and> (\<exists>r. r \<in> set (employee (conn tab))
               \<and> cols r File_no = strip (form_fields tab File_no)
               \<and> Some (emp_id r) \<noteq> skip_id)))
   \<and> ((validate_employee_form today tab skip_id = Some National_id_taken) =
      (strip (form_fields tab Name) \<noteq> [] \<and> strip (form_fields tab File_no) \<noteq> []
       \<and> \<not> taken File_no (strip (form_fields tab File_no)) skip_id (conn tab)
       \<and> length (strip (form_fields tab National_id)) = 14
       \<and> list_all isdigit_char (strip (form_fields tab National_id))
       \<and> (\<exists>r. r \<in> set (employee (conn tab))
               \<and> cols r National_id = strip (form_fields tab National_id)
               \<and> Some (emp_id r) \<noteq> skip_id)))
   \<and> (selected_emp_id tab = None \<longrightarrow> validate_employee_form today tab None = None \<longrightarrow>
        employee (conn (snd (add_employee today tab)))
          = employee (conn tab)
            @ [\<lparr>emp_id = next_rowid (employee_seq (conn tab)) (map emp_id (employee (conn tab))),
                cols = (\<lambda>f. normalize_arabic (form_fields tab f))\<rparr>])
   \<and> (selected_emp_id tab = Some i \<longrightarrow> validate_employee_form today tab (Some i) = None \<longrightarrow>
        employee (conn (snd (add_employee today tab)))
          = map (\<lambda>r. if emp_id r = i
                      then r\<lparr>cols := (\<lambda>f. normalize_arabic (form_fields tab f))\<rparr> else r)
                (employee (conn tab))
        \<and> employee (conn (snd (edit_employee today tab)))
          = map (\<lambda>r. if emp_id r = i
                      then r\<lparr>cols := (\<lambda>f. normalize_arabic (form_fields tab f))\<rparr> else r)
                (employee (conn tab)))
   \<and> strip [ALEF_HAMZA_ABOVE] = [ALEF_HAMZA_ABOVE]
   \<and> normalize_arabic [ALEF_HAMZA_ABOVE] = [ALEF]"
proof -
  have a: "(validate_employee_form today tab skip_id = Some File_no_taken) =
      (strip (form_fields tab Name) \<noteq> [] \<and> strip (form_fields tab File_no) \<noteq> []
       \<and> (\<exists>r. r \<in> set (employee (conn tab))
               \<and> cols r File_no = strip (form_fields tab File_no)
               \<and> Some (emp_id r) \<noteq> skip_id))"
    by (simp add: validate_File_no_taken_iff taken_iff form_text_def)
  have b: "(validate_employee_form today tab skip_id = Some National_id_taken) =
      (strip (form_fields tab Name) \<noteq> [] \<and> strip (form_fields tab File_no) \<noteq> []
       \<and> \<not> taken File_no (strip (form_fields tab File_no)) skip_id (conn tab)
       \<and> length (strip (form_fields tab National_id)) = 14
       \<and> list_all isdigit_char (strip (form_fields tab National_id))
       \<and> (\<exists>r. r \<in> set (employee (conn tab))
               \<and> cols r National_id = strip (form_fields tab National_id)
               \<and> Some (emp_id r) \<noteq> skip_id))"
    unfolding validate_National_id_taken_iff form_text_def
    by (simp add: taken_iff [of National_id])
  from a b add_employee_inserts(2) add_employee_updates(2) edit_employee_updates(2)
    strip_alef normalize_alef
  show ?thesis by blast
qed

theorem uniqueness_compares_trimmed_text_witness:
  "validate_employee_form ex_today (ex_after_first\<lparr>form_fields := ex_form_alef_b\<rparr>) None
     \<noteq> Some File_no_taken
   \<and> map (\<lambda>r. cols r File_no) (employee (conn ex_after_first))
       = [normalize_arabic (strip (ex_form_alef_b File_no))]
   \<and> employee (conn (snd (add_employee ex_today (new_tab ex_form_alef_a))))
       = [\<lparr>emp_id = 1, cols = (\<lambda>f. normalize_arabic (ex_form_alef_a f))\<rparr>]"
proof -
  have s0: "selected_emp_id (new_tab ex_form_alef_a) = None" by (simp add: new_tab_def)
  have c0: "employee (conn (new_tab ex_form_alef_a)) = []
            \<and> employee_seq (conn (new_tab ex_form_alef_a)) = 0
            \<and> form_fields (new_tab ex_form_alef_a) = ex_form_alef_a"
    by (simp add: new_tab_def empty_connection_def)
  from uniqueness_compares_trimmed_text [of ex_today "new_tab ex_form_alef_a" None] s0
    validate_alef_a
  have "employee (conn (snd (add_employee ex_today (new_tab ex_form_alef_a))))
          = employee (conn (new_tab ex_form_alef_a))
            @ [\<lparr>emp_id = next_rowid (employee_seq (conn (new_tab ex_form_alef_a)))
                            (map emp_id (employee (conn (new_tab ex_form_alef_a)))),
                cols = (\<lambda>f. normalize_arabic (form_fields (new_tab ex_form_alef_a) f))\<rparr>]"
    by blast
  then have e: "employee (conn (snd (add_employee ex_today (new_tab ex_form_alef_a))))
       = [\<lparr>emp_id = 1, cols = (\<lambda>f. normalize_arabic (ex_form_alef_a f))\<rparr>]"
    by (simp add: c0 next_rowid_def)
  have n: "normalize_arabic (strip (ex_form_alef_b File_no)) = [1575]"
    by (simp add: ex_form_alef_b_def normalize_arabic_eq canon_char_def remove_char_def
          strip_eval letter_defs)
  from e n validate_alef_b normalize_form_alef_a employee_after_first
  show ?thesis by simp
qed

subsection \<open>Editing a record with its own key values\<close>

text \<open>
  Where the other rows hold other key values. Let a stored row be selected, let the
  form's file number and national identifier (trimmed) be that row's own stored values,
  and let no row with another key hold either value. Then the validation of
  \<open>edit_employee\<close> does not stop at a duplicate; it passes exactly when the remaining
  checks do; and when it passes, \<open>edit_employee\<close> reports the edit and overwrites every
  column of the selected row with the normalized text of the form, leaving the other
  rows as they were.
\<close>

lemma edit_employee_own_values:
  assumes "r \<in> set (employee (conn tab))"
    and "selected_emp_id tab = Some (emp_id r)"
    and "form_text tab File_no = cols r File_no"
    and "form_text tab National_id = cols r National_id"
    and "\<forall>r' \<in> set (employee (conn tab)).
           emp_id r' \<noteq> emp_id r \<longrightarrow>
             cols r' File_no \<noteq> cols r File_no \<and> cols r' National_id \<noteq> cols r National_id"
  shows "validate_employee_form today tab (Some (emp_id r)) \<noteq> Some File_no_taken
         \<and> validate_employee_form today tab (Some (emp_id r)) \<noteq> Some National_id_taken
         \<and> ((validate_employee_form today tab (Some (emp_id r)) = None) =
              (form_text tab Name \<noteq> [] \<and> cols r File_no \<noteq> []
               \<and> length (cols r National_id) = 14 \<and> list_all isdigit_char (cols r National_id)
               \<and> (form_text tab Phone = [] \<or> list_all isdigit_char (form_text tab Phone))
               \<and> date_ok today (form_text tab Grade_date)
               \<and> date_ok today (form_text tab Hire_date)
               \<and> date_ok today (form_text tab Birth_date)))
         \<and> (validate_employee_form today tab (Some (emp_id r)) = None \<longrightarrow>
              fst (edit_employee today tab) = Information_edited
              \<and> employee (conn (snd (edit_employee today tab)))
                  = map (\<lambda>r'. if emp_id r' = emp_id r
                               then r'\<lparr>cols := (\<lambda>f. normalize_arabic (form_fields tab f))\<rparr>
                               else r')
                        (employee (conn tab)))"
proof -
  have nf: "\<not> taken File_no (form_text tab File_no) (Some (emp_id r)) (conn tab)"
    using assms(3,5) by (auto simp: taken_iff)
  have nn: "\<not> taken National_id (form_text tab National_id) (Some (emp_id r)) (conn tab)"
    using assms(4,5) by (auto simp: taken_iff)
  have a: "validate_employee_form today tab (Some (emp_id r)) \<noteq> Some File_no_taken"
    using nf by (simp add: validate_File_no_taken_iff)
  have b: "validate_employee_form today tab (Some (emp_id r)) \<noteq> Some National_id_taken"
    using nn by (simp add: validate_National_id_taken_iff)
  have c: "(validate_employee_form today tab (Some (emp_id r)) = None) =
              (form_text tab Name \<noteq> [] \<and> cols r File_no \<noteq> []
               \<and> length (cols r National_id) = 14 \<and> list_all isdigit_char (cols r National_id)
               \<and> (form_text tab Phone = [] \<or> list_all isdigit_char (form_text tab Phone))
               \<and> date_ok today (form_text tab Grade_date)
               \<and> date_ok today (form_text tab Hire_date)
               \<and> date_ok today (form_text tab Birth_date))"
    unfolding validate_None_iff isdigit_14
    using nf nn assms(3,4) by (auto simp: isdigit_def)
  from a b c edit_employee_updates [OF assms(2)] show ?thesis by blast
qed

lemma edit_employee_own_values_example:
  "ex_row 1 [65, 104, 109, 101, 100] [55] [49, 50, 51, 52, 53, 54, 55, 56, 57, 48, 49, 50, 51, 52]
     \<in> set (employee (conn ex_tab_editing))
   \<and> validate_employee_form ex_today ex_tab_editing (Some 1) = None
   \<and> fst (edit_employee ex_today ex_tab_editing) = Information_edited
   \<and> map emp_id (employee (conn (snd (edit_employee ex_today ex_tab_editing)))) = [1, 2]
   \<and> map (\<lambda>r. cols r Department) (employee (conn (snd (edit_employee ex_today ex_tab_editing))))
       = [[72, 82], []]"
proof -
  let ?r = "ex_row 1 [65, 104, 109, 101, 100] [55]
              [49, 50, 51, 52, 53, 54, 55, 56, 57, 48, 49, 50, 51, 52]"
  have id: "emp_id ?r = 1" by (simp add: ex_row_def)
  have h1: "?r \<in> set (employee (conn ex_tab_editing))"
    by (simp add: ex_tab_editing_def ex_eval)
  have h2: "selected_emp_id ex_tab_editing = Some (emp_id ?r)"
    by (simp add: ex_tab_editing_def ex_eval)
  have h3: "form_text ex_tab_editing File_no = cols ?r File_no"
    by (simp add: form_text_def ex_tab_editing_def ex_eval ex_form_own_def strip_eval)
  have h4: "form_text ex_tab_editing National_id = cols ?r National_id"
    by (simp add: form_text_def ex_tab_editing_def ex_eval ex_form_own_def strip_eval)
  have h5: "\<forall>r' \<in> set (employee (conn ex_tab_editing)).
           emp_id r' \<noteq> emp_id ?r \<longrightarrow>
             cols r' File_no \<noteq> cols ?r File_no \<and> cols r' National_id \<noteq> cols ?r National_id"
    by (simp add: ex_tab_editing_def ex_eval)
  have v: "validate_employee_form ex_today ex_tab_editing (Some 1) = None"
    by (simp add: validate_eval ex_tab_editing_def ex_eval ex_form_own_def)
  have n: "normalize_arabic (ex_form_own Department) = [72, 82]"
    by (simp add: ex_form_own_def normalize_arabic_eq canon_char_def remove_char_def
          strip_eval letter_defs)
  from edit_employee_own_values [OF h1 h2 h3 h4 h5, of ex_today] v id
  have "fst (edit_employee ex_today ex_tab_editing) = Information_edited
        \<and> employee (conn (snd (edit_employee ex_today ex_tab_editing)))
            = map (\<lambda>r'. if emp_id r' = 1
                         then r'\<lparr>cols := (\<lambda>f. normalize_arabic (form_fields ex_tab_editing f))\<rparr>
                         else r')
                  (employee (conn ex_tab_editing))"
    by simp
  then have "fst (edit_employee ex_today ex_tab_editing) = Information_edited
     \<and> map emp_id (employee (conn (snd (edit_employee ex_today ex_tab_editing)))) = [1, 2]
     \<and> map (\<lambda>r. cols r Department) (employee (conn (snd (edit_employee ex_today ex_tab_editing))))
         = [[72, 82], []]"
    using n by (simp add: ex_tab_editing_def ex_eval)
  with h1 v show ?thesis by simp
qed

section \<open>Properties of the attachments on disk\<close>

lemma copy_file_keeps:
  "copy_file os fs f dest = Some fs' \<Longrightarrow> fs dest = None \<Longrightarrow> fs p = Some content
     \<Longrightarrow> fs' p = Some content"
  by (auto simp: copy_file_def split: option.splits if_splits)

lemma upload_file_keeps:
  "fst st p = Some content \<Longrightarrow> fst (upload_file os now folder f st) p = Some content"
proof (cases st)
  case (Pair fs tab)
  assume "fst st p = Some content"
  with Pair have p: "fs p = Some content" by simp
  show ?thesis
  proof (cases "path_exists fs (path_join os folder (path_basename os f))")
    case True
    with p Pair show ?thesis
      by (simp add: upload_file_def Let_def split: option.splits)
  next
    case False
    then have n: "fs (path_join os folder (path_basename os f)) = None"
      by (simp add: path_exists_def)
    show ?thesis
    proof (cases "copy_file os fs f (path_join os folder (path_basename os f))")
      case None
      with p Pair False show ?thesis by (simp add: upload_file_def Let_def)
    next
      case (Some fs')
      from copy_file_keeps [OF Some n p] have "fs' p = Some content" .
      with Pair False Some show ?thesis
        by (simp add: upload_file_def Let_def split: option.splits)
    qed
  qed
qed

lemma fold_upload_file_keeps:
  "fst st p = Some content
     \<Longrightarrow> fst (fold (upload_file os now folder) files st) p = Some content"
proof (induction files arbitrary: st)
  case Nil
  then show ?case by simp
next
  case (Cons f files)
  from upload_file_keeps [OF Cons.prems]
  have "fst (upload_file os now folder f st) p = Some content" .
  from Cons.IH [OF this] show ?case by simp
qed

lemma upload_files_keeps:
  "fst st p = Some content \<Longrightarrow> fst (snd (upload_files os now files st)) p = Some content"
  by (simp add: upload_files_def Let_def fold_upload_file_keeps)

lemma form_fields_upload_file:
  "form_fields (snd (upload_file os now folder f st)) = form_fields (snd st)"
  by (cases st) (simp add: upload_file_def Let_def split: option.splits)

lemma upload_files_single:
  "form_fields tab File_no \<noteq> [] \<Longrightarrow>
   snd (upload_files os now [f] (fs, tab))
     = upload_file os now (get_employee_folder os (form_fields tab File_no)) f (fs, tab)"
  by (simp add: upload_files_def Let_def)

lemma upload_file_copies:
  "fs f = Some content \<Longrightarrow> fs (path_join os folder (path_basename os f)) = None
     \<Longrightarrow> can_create os (path_join os folder (path_basename os f))
     \<Longrightarrow> fst (upload_file os now folder f (fs, tab)) (path_join os folder (path_basename os f))
           = Some content"
  by (simp add: upload_file_def Let_def path_exists_def copy_file_def split: option.splits)

lemma upload_photo_copies:
  "f \<noteq> [] \<Longrightarrow> form_fields tab File_no \<noteq> [] \<Longrightarrow> fs f = Some content
     \<Longrightarrow> can_create os (path_join os (get_employee_folder os (form_fields tab File_no))
                           (PHOTO_PREFIX @ path_basename os f))
     \<Longrightarrow> fst (snd (upload_photo os now f (fs, tab)))
           (path_join os (get_employee_folder os (form_fields tab File_no))
              (PHOTO_PREFIX @ path_basename os f)) = Some content"
  by (simp add: upload_photo_def Let_def copy_file_def split: option.splits)

lemmas fs_eval =
  ex_fs_def ex_fs_photo_def ex_src_a_def ex_src_b_def ex_dest_def ex_photo_dest_def
  ex_form_upload_def ex_os_def ATTACHMENTS_DIR_def PHOTO_PREFIX_def get_employee_folder_def

subsection \<open>Uploading over an existing file\<close>

text \<open>
  Claim C8, at the input where it fails. The folder of file number \<open>7\<close> holds the file
  \<open>attachments/7/photo_x.png\<close> of bytes \<open>9 9\<close>. Uploading the photo \<open>/a/x.png\<close> of
  bytes \<open>1 2 3\<close> for that file number has the same destination; \<open>upload_photo\<close> returns
  without a message and the destination then holds \<open>1 2 3\<close>: the existing file is
  overwritten.
\<close>

theorem upload_photo_overwrites:
  "ex_fs_photo ex_photo_dest = Some [9, 9]
   \<and> fst (snd (upload_photo ex_os [] ex_src_a (ex_fs_photo, new_tab ex_form_upload))) ex_photo_dest
       = Some [1, 2, 3]
   \<and> fst (upload_photo ex_os [] ex_src_a (ex_fs_photo, new_tab ex_form_upload)) = Silent"
  by (simp add: upload_photo_def Let_def copy_file_def new_tab_def fs_eval)

text \<open>
  The two upload paths side by side. \<open>upload_files\<close> tests the destination before it
  copies, so it never changes a file that exists: every path that holds some content
  before the call holds the same content after it, and when two sources share their
  base name and the destination is free and can be created, uploading the first and
  then the second leaves the content of the first at the destination. \<open>upload_photo\<close>
  has no such test: it writes the content of its source to \<open>photo_\<close> followed by the
  base name, whatever that path held.
\<close>

lemma upload_files_first_writer_wins:
  "(fs p = Some content \<longrightarrow>
      fst (snd (upload_files os now files (fs, tab))) p = Some content)
   \<and> (form_fields tab File_no \<noteq> [] \<and> path_basename os f1 = path_basename os f2
      \<and> fs f1 = Some c1
      \<and> fs (path_join os (get_employee_folder os (form_fields tab File_no))
                (path_basename os f1)) = None
      \<and> can_create os (path_join os (get_employee_folder os (form_fields tab File_no))
                (path_basename os f1)) \<longrightarrow>
        fst (snd (upload_files os now [f1] (fs, tab)))
          (path_join os (get_employee_folder os (form_fields tab File_no))
             (path_basename os f1)) = Some c1
        \<and> fst (snd (upload_files os now [f2] (snd (upload_files os now [f1] (fs, tab)))))
            (path_join os (get_employee_folder os (form_fields tab File_no))
               (path_basename os f2)) = Some c1)
   \<and> (f \<noteq> [] \<and> form_fields tab File_no \<noteq> [] \<and> fs f = Some c
      \<and> can_create os (path_join os (get_employee_folder os (form_fields tab File_no))
                (PHOTO_PREFIX @ path_basename os f)) \<longrightarrow>
        fst (snd (upload_photo os now f (fs, tab)))
          (path_join os (get_employee_folder os (form_fields tab File_no))
             (PHOTO_PREFIX @ path_basename os f)) = Some c)"
proof (intro conjI impI)
  assume "fs p = Some content"
  then have "fst (fs, tab) p = Some content" by simp
  then show "fst (snd (upload_files os now files (fs, tab))) p = Some content"
    by (rule upload_files_keeps)
next
  let ?dest = "path_join os (get_employee_folder os (form_fields tab File_no))
                 (path_basename os f1)"
  assume a: "form_fields tab File_no \<noteq> [] \<and> path_basename os f1 = path_basename os f2
      \<and> fs f1 = Some c1 \<and> fs ?dest = None \<and> can_create os ?dest"
  then have one: "snd (upload_files os now [f1] (fs, tab))
     = upload_file os now (get_employee_folder os (form_fields tab File_no)) f1 (fs, tab)"
    by (simp add: upload_files_single)
  from a have "fs f1 = Some c1" "fs ?dest = None" "can_create os ?dest" by blast+
  then have "fst (upload_file os now (get_employee_folder os (form_fields tab File_no)) f1
                 (fs, tab)) ?dest = Some c1"
    by (rule upload_file_copies)
  with one show first: "fst (snd (upload_files os now [f1] (fs, tab))) ?dest = Some c1"
    by simp
  from first
  have "fst (snd (upload_files os now [f2] (snd (upload_files os now [f1] (fs, tab))))) ?dest
          = Some c1"
    by (rule upload_files_keeps)
  with a show "fst (snd (upload_files os now [f2] (snd (upload_files os now [f1] (fs, tab)))))
            (path_join os (get_employee_folder os (form_fields tab File_no))
               (path_basename os f2)) = Some c1"
    by simp
next
  assume "f \<noteq> [] \<and> form_fields tab File_no \<noteq> [] \<and> fs f = Some c
      \<and> can_create os (path_join os (get_employee_folder os (form_fields tab File_no))
                (PHOTO_PREFIX @ path_basename os f))"
  then show "fst (snd (upload_photo os now f (fs, tab)))
          (path_join os (get_employee_folder os (form_fields tab File_no))
             (PHOTO_PREFIX @ path_basename os f)) = Some c"
    by (simp add: upload_photo_copies)
qed

lemma upload_files_first_writer_wins_example:
  "ex_fs ex_src_b = Some [4, 5]
   \<and> fst (snd (upload_files ex_os [] [ex_src_a, ex_src_b] (ex_fs, new_tab ex_form_upload)))
       ex_src_b = Some [4, 5]
   \<and> fst (snd (upload_files ex_os [] [ex_src_a] (ex_fs, new_tab ex_form_upload))) ex_dest
       = Some [1, 2, 3]
   \<and> fst (snd (upload_files ex_os [] [ex_src_b]
                 (snd (upload_files ex_os [] [ex_src_a] (ex_fs, new_tab ex_form_upload)))))
       ex_dest = Some [1, 2, 3]
   \<and> fst (snd (upload_photo ex_os [] ex_src_a (ex_fs, new_tab ex_form_upload))) ex_photo_dest
       = Some [1, 2, 3]"
proof -
  have e: "ex_fs ex_src_b = Some [4, 5]" "ex_fs ex_src_a = Some [1, 2, 3]"
    by (simp_all add: fs_eval)
  have f: "form_fields (new_tab ex_form_upload) File_no = [55]"
    by (simp add: new_tab_def ex_form_upload_def)
  have b: "path_basename ex_os ex_src_a = [120, 46, 112, 110, 103]"
    "path_basename ex_os ex_src_b = [120, 46, 112, 110, 103]"
    by (simp_all add: fs_eval)
  have d: "path_join ex_os (get_employee_folder ex_os [55]) [120, 46, 112, 110, 103] = ex_dest"
    "path_join ex_os (get_employee_folder ex_os [55]) (PHOTO_PREFIX @ [120, 46, 112, 110, 103])
       = ex_photo_dest"
    by (simp_all add: fs_eval)
  have n: "ex_fs ex_dest = None" by (simp add: fs_eval)
  have c: "can_create ex_os ex_dest" "can_create ex_os ex_photo_dest"
    by (simp_all add: ex_os_def)
  have s: "ex_src_a \<noteq> []" by (simp add: ex_src_a_def)
  from upload_files_first_writer_wins
         [of ex_fs ex_src_b "[4, 5]" ex_os "[]" "[ex_src_a, ex_src_b]" "new_tab ex_form_upload"
             ex_src_a ex_src_b "[1, 2, 3]" ex_src_a "[1, 2, 3]"]
  show ?thesis
    unfolding f b d using e n c s by simp
qed

subsection \<open>Editing a record of a table that holds a file number twice\<close>

lemma add_employee_inserts_table:
  assumes "selected_emp_id tab = None" "validate_employee_form today tab None = None"
  shows "table (snd (add_employee today tab)) = employee (conn (snd (add_employee today tab)))"
  using assms
  by (simp add: add_employee_def Let_def insert_employee_def clear_form_def load_employees_def)

lemma selected_after_first:
  "selected_emp_id (ex_after_first\<lparr>form_fields := ex_form_alef_b\<rparr>) = None"
  by (simp add: tab_after_first)

lemma stored_alef_a:
  "(\<lambda>f. normalize_arabic (ex_form_alef_a f))
     = (\<lambda>f. [])(Name := [65], File_no := [1575],
                National_id := [49, 50, 51, 52, 53, 54, 55, 56, 57, 48, 49, 50, 51, 52])"
  by (rule ext)
     (simp add: ex_form_alef_a_def normalize_arabic_eq canon_char_def remove_char_def
        strip_eval letter_defs)

lemma stored_alef_b:
  "(\<lambda>f. normalize_arabic (ex_form_alef_b f))
     = (\<lambda>f. [])(Name := [66], File_no := [1575],
                National_id := [49, 50, 51, 52, 53, 54, 55, 56, 57, 48, 49, 50, 51, 53])"
  by (rule ext)
     (simp add: ex_form_alef_b_def normalize_arabic_eq canon_char_def remove_char_def
        strip_eval letter_defs)

lemma employee_after_second:
  "employee (conn ex_after_second)
     = [\<lparr>emp_id = 1, cols = (\<lambda>f. [])(Name := [65], File_no := [1575],
           National_id := [49, 50, 51, 52, 53, 54, 55, 56, 57, 48, 49, 50, 51, 52])\<rparr>,
        \<lparr>emp_id = 2, cols = (\<lambda>f. [])(Name := [66], File_no := [1575],
           National_id := [49, 50, 51, 52, 53, 54, 55, 56, 57, 48, 49, 50, 51, 53])\<rparr>]"
  unfolding ex_after_second_def
  using add_employee_inserts(2) [OF selected_after_first validate_alef_b]
  by (simp add: employee_after_first tab_after_first next_rowid_def stored_alef_a stored_alef_b)

lemma table_after_second: "table ex_after_second = employee (conn ex_after_second)"
  unfolding ex_after_second_def
  by (rule add_employee_inserts_table [OF selected_after_first validate_alef_b])

lemma validate_load_attachments:
  "validate_employee_form today (load_attachments i tab) skip_id
     = validate_employee_form today tab skip_id"
proof -
  have "check_dates today (form_fields (load_attachments i tab)) fields
          = check_dates today (form_fields tab) fields" for fields
    by (simp add: load_attachments_def Let_def)
  then show ?thesis
    by (simp add: validate_employee_form_def load_attachments_def Let_def)
qed

lemma on_row_select_first:
  "on_row_select 0 ex_after_second
     = Some (load_attachments 1
               (ex_after_second\<lparr>form_fields := (\<lambda>f. [])(Name := [65], File_no := [1575],
                    National_id := [49, 50, 51, 52, 53, 54, 55, 56, 57, 48, 49, 50, 51, 52]),
                  selected_emp_id := Some 1\<rparr>))"
  by (simp add: on_row_select_def table_after_second employee_after_second fetchone_def)

lemma edit_employee_invalid:
  "selected_emp_id tab = Some i \<Longrightarrow> validate_employee_form today tab (Some i) = Some e
     \<Longrightarrow> edit_employee today tab = (Critical_invalid e, tab)"
  by (simp add: edit_employee_def)

text \<open>
  Claim C5, at the input where it fails. After the two additions of claim C1 the table
  holds the rows 1 and 2, both with the stored file number \<open>[1575]\<close>. Selecting the
  first row puts its own stored values into the form; \<open>edit_employee\<close> with these
  unchanged values is refused as a duplicate, because the row 2 holds the same file
  number, and the state is left as it was.
\<close>

theorem edit_employee_own_file_no_refused:
  "map (\<lambda>r. (emp_id r, cols r File_no)) (employee (conn ex_after_second))
     = [(1, [1575]), (2, [1575])]
   \<and> on_row_select 0 ex_after_second = Some ex_selected_first
   \<and> selected_emp_id ex_selected_first = Some 1
   \<and> form_fields ex_selected_first File_no = [1575]
   \<and> validate_employee_form ex_today ex_selected_first (Some 1) = Some File_no_taken
   \<and> edit_employee ex_today ex_selected_first
       = (Critical_invalid File_no_taken, ex_selected_first)"
proof -
  let ?tab = "ex_after_second\<lparr>form_fields := (\<lambda>f. [])(Name := [65], File_no := [1575],
                    National_id := [49, 50, 51, 52, 53, 54, 55, 56, 57, 48, 49, 50, 51, 52]),
                  selected_emp_id := Some 1\<rparr>"
  have t: "ex_selected_first = load_attachments 1 ?tab"
    by (simp add: ex_selected_first_def on_row_select_first)
  have s: "selected_emp_id ex_selected_first = Some 1"
    and f: "form_fields ex_selected_first File_no = [1575]"
    by (simp_all add: t load_attachments_def Let_def)
  have "validate_employee_form ex_today ?tab (Some 1) = Some File_no_taken"
    by (simp add: validate_eval employee_after_second)
  then have v: "validate_employee_form ex_today ex_selected_first (Some 1) = Some File_no_taken"
    by (simp add: t validate_load_attachments)
  from edit_employee_invalid [OF s v] s f v on_row_select_first t employee_after_second
  show ?thesis by simp
qed

section \<open>Properties of the search\<close>









subsection \<open>Which records a search returns\<close>




end
